theory Spec2Isabelle
  imports Main "HOL-Library.AList"
begin

section \<open>Neochess server: the socket event handlers of server.js\<close>

text \<open>
  The server keeps its memory in module-level objects (users, sockets, timers, timesync,
  currentGameId, joinableGames, watchableGames, playerReceivedLastmove, lastMoveFromGame),
  mirrors every game in a MongoDB collection and schedules periodic work with setInterval.
  The model threads one record through every handler. Its last fields stand for the
  environment the handlers act on: the game collection, the active intervals, the socket.io
  room memberships, the emitted messages, the error console and the promise rejections
  that no handler caught.

  Each handler and each interval callback is run to completion before the next one starts:
  the interleaving of two async handlers at an await is not modelled. The informational
  logger calls and the ascii board printed by the move handler are left out; the errors
  printed by the catch blocks are kept.
\<close>

subsection \<open>JavaScript values\<close>

text \<open>
  A primitive value: undefined, null, a boolean, a number or a string. User names and
  result fields are such values. A name is whatever the \<open>username\<close> field of a payload
  holds; the server stores it as it comes and never tests that it is a string. \<open>Num n\<close> is
  a number that is an integer (of magnitude below \<open>10^21\<close>, where JavaScript prints every
  digit). Fractions, arrays and objects are not represented. Equality of two such values
  is JavaScript's \<open>===\<close>: the number 7 and the string "7" differ.
\<close>

datatype jval = Undefined | Null | Bool bool | Num int | Str string

text \<open>The decimal digits of a natural number.\<close>

fun decimal :: "nat \<Rightarrow> string" where
  "decimal n =
     (if n < 10 then [''0123456789'' ! n]
      else decimal (n div 10) @ [''0123456789'' ! (n mod 10)])"

declare decimal.simps [simp del]

text \<open>
  The string a value becomes as an object key or an operand of string concatenation.
\<close>

fun js_str :: "jval \<Rightarrow> string" where
  "js_str Undefined = ''undefined''"
| "js_str Null = ''null''"
| "js_str (Bool b) = (if b then ''true'' else ''false'')"
| "js_str (Num n) = (if n < 0 then ''-'' @ decimal (nat (- n)) else decimal (nat n))"
| "js_str (Str s) = s"

fun truthy :: "jval \<Rightarrow> bool" where
  "truthy (Str s) = (s \<noteq> [])"
| "truthy (Num n) = (n \<noteq> 0)"
| "truthy (Bool b) = b"
| "truthy Undefined = False"
| "truthy Null = False"

text \<open>
  An object lookup \<open>obj[k]\<close>: the key is converted to a string, a missing key gives
  undefined.
\<close>

definition lookup :: "(string \<rightharpoonup> string) \<Rightarrow> jval \<Rightarrow> jval" where
  "lookup m k = (case m (js_str k) of None \<Rightarrow> Undefined | Some v \<Rightarrow> Str v)"

datatype exn = TypeError | PersistenceError | OracleError

text \<open>
  A clock reading is a number; \<open>None\<close> stands for the undefined of an unknown time
  control and the NaN that arithmetic makes of it (\<open>Math.max\<close> keeps NaN, and every
  comparison with NaN is false).
\<close>

definition max0 :: "int option \<Rightarrow> int option" where
  "max0 t = map_option (\<lambda>x. max 0 x) t"

definition decrement :: "int option \<Rightarrow> int option" where
  "decrement t = map_option (\<lambda>x. max (- 1) (x - 1)) t"

definition expired :: "int option \<Rightarrow> bool" where
  "expired t = (case t of None \<Rightarrow> False | Some x \<Rightarrow> x \<le> - 1)"

subsection \<open>The data model\<close>

record player =
  username :: jval
  ptime :: "int option"

text \<open>
  The game document. Nested objects are flattened: \<open>white\<close> and \<open>black\<close> are
  \<open>players.white\<close> and \<open>players.black\<close>, \<open>timeControl\<close> is
  \<open>timeControl.string\<close> (the minutes and increment parsed from it are never read by the
  server), \<open>fen\<close> to \<open>lastMove\<close> are the \<open>state\<close> object, \<open>pgn\<close> and
  \<open>moves\<close> the \<open>history\<close> object, and the last two the \<open>result\<close> object.
\<close>

record game =
  game_id :: string
  host :: jval
  guest :: jval
  white :: player
  black :: player
  timeControl :: string
  fen :: string
  joinable :: bool
  started :: bool
  finished :: bool
  lastMove :: "string option"
  pgn :: string
  moves :: "string list"
  result_description :: jval
  result_winner :: jval

record resultData =
  result :: jval
  winner :: jval

record movedata =
  m_username :: jval
  m_gameId :: string
  m_fen :: string
  m_move :: string

record timer =
  loop :: "nat option"
  time :: "int option"

record sync =
  mainLoop :: nat
  lastTimeSync :: "string \<rightharpoonup> int"
  ackLoop :: nat

record entry =
  e_host :: jval
  e_timeControl :: string
  e_gameId :: string

text \<open>
  The closures handed to setInterval, with the variables each one captures: the two loops
  of newGame (game id, host name, and for the clock broadcast the host's socket), the two
  loops of joinGame (game id, white, black) and the decrement loop of the move handler
  (game id, the mover, the opponent).
\<close>

datatype callback =
    HostSync string jval string
  | HostAck string jval
  | GameSync string jval jval
  | GameAck string jval jval
  | Tick string jval jval

text \<open>The fields a \<open>$set\<close> update of the game document can name.\<close>

datatype upd =
    Set_finished bool
  | Set_result_description jval
  | Set_result_winner jval
  | Set_white_time "int option"
  | Set_black_time "int option"
  | Set_white_username jval
  | Set_black_username jval
  | Set_guest jval
  | Set_joinable bool
  | Set_fen string
  | Set_lastMove string
  | Set_pgn string
  | Set_moves "string list"
  | Set_started bool

text \<open>
  \<open>io.to(room).emit\<close> addresses a room (a socket's own id is a room holding that
  socket); \<open>socket.emit\<close> addresses the handler's own socket.
\<close>

datatype target = Room string | Socket string

datatype message =
    Username_msg string
  | GameOver resultData
  | Timesync string "(string \<times> int option) list"
  | Moved "movedata option"
  | UpdateGame "game option"
  | GamesList "entry list" "entry list"
  | GameCreated game
  | GameCreated_error
  | GameJoined game bool
  | GameJoined_error
  | SyncShapes string

text \<open>
  The server's memory. \<open>users\<close> maps a socket id to the name announced on it, as the
  value it came. \<open>sockets\<close> maps a name, as an object key, to a socket id; it is kept as
  the list of its names in their order of insertion, which is the order \<open>for (u in sockets)\<close>
  visits names that are not array indices (names such as "7" are visited first by
  JavaScript; the order of a broadcast is not reproduced for them).
\<close>

record server =
  users :: "string \<rightharpoonup> jval"
  sockets :: "(string \<times> string) list"
  timers :: "string \<rightharpoonup> timer"
  timesync :: "string \<rightharpoonup> sync"
  currentGameId :: "string \<rightharpoonup> string"
  joinableGames :: "entry list"
  watchableGames :: "entry list"
  playerReceivedLastmove :: "string \<rightharpoonup> bool"
  lastMoveFromGame :: "string \<rightharpoonup> movedata"
  gameCollection :: "string \<rightharpoonup> game"
  db_up :: bool
  db_updates :: "(string \<times> upd list) list"
  intervals :: "(nat \<times> callback) list"
  next_handle :: nat
  rooms :: "string \<Rightarrow> string set"
  emitted :: "(target \<times> message) list"
  console :: "exn list"
  unhandled :: "exn list"

text \<open>
  The rules oracle (chess.js), a parameter of the handlers: the position a new board
  starts from, and the position reached by loading a PGN and playing a move on it. A move
  that chess.js rejects leaves the loaded position as it is; nothing in the handler reads
  the value \<open>move()\<close> returns.
\<close>

record position =
  p_fen :: string
  p_pgn :: string
  p_history :: "string list"
  p_game_over :: bool
  p_in_checkmate :: bool
  p_in_draw :: bool
  p_in_stalemate :: bool
  p_in_threefold_repetition :: bool
  p_insufficient_material :: bool

record chess =
  initial :: position
  play :: "string \<Rightarrow> string \<Rightarrow> exn + position"

subsection \<open>Constants and object keys\<close>

definition TIMESYNC_TIMEOUT :: int where
  "TIMESYNC_TIMEOUT = 180000"

definition seconds :: "string \<Rightarrow> int option" where
  "seconds tc = map_of
     [(''1+0'', 60), (''3+0'', 60 * 3), (''5+0'', 60 * 5),
      (''10+0'', 60 * 10), (''15+0'', 60 * 15), (''30+0'', 60 * 30)] tc"

text \<open>\<open>username+gameId\<close>, the key of timers and playerReceivedLastmove.\<close>

definition key :: "jval \<Rightarrow> string \<Rightarrow> string" where
  "key u g = js_str u @ g"

text \<open>\<open>username+socketId+gameId\<close>, the name of a participant's private room.\<close>

definition userRoom :: "jval \<Rightarrow> jval \<Rightarrow> string \<Rightarrow> string" where
  "userRoom u s g = js_str u @ js_str s @ g"

definition user_of :: "server \<Rightarrow> string \<Rightarrow> jval" where
  "user_of st sid = (case users st sid of None \<Rightarrow> Undefined | Some u \<Rightarrow> u)"

definition socket_of :: "server \<Rightarrow> jval \<Rightarrow> jval" where
  "socket_of st u = lookup (map_of (sockets st)) u"

subsection \<open>The environment: intervals, rooms, messages, the game collection\<close>

definition setInterval :: "callback \<Rightarrow> server \<Rightarrow> nat \<times> server" where
  "setInterval cb st =
     (next_handle st,
      st\<lparr>intervals := intervals st @ [(next_handle st, cb)],
         next_handle := Suc (next_handle st)\<rparr>)"

definition clearInterval :: "nat \<Rightarrow> server \<Rightarrow> server" where
  "clearInterval h st = st\<lparr>intervals := filter (\<lambda>p. fst p \<noteq> h) (intervals st)\<rparr>"

definition emit :: "target \<Rightarrow> message \<Rightarrow> server \<Rightarrow> server" where
  "emit tg m st = st\<lparr>emitted := emitted st @ [(tg, m)]\<rparr>"

definition join_room :: "string \<Rightarrow> string \<Rightarrow> server \<Rightarrow> server" where
  "join_room sid r st = st\<lparr>rooms := (rooms st)(sid := insert r (rooms st sid))\<rparr>"

definition leave_room :: "string \<Rightarrow> string \<Rightarrow> server \<Rightarrow> server" where
  "leave_room sid r st = st\<lparr>rooms := (rooms st)(sid := rooms st sid - {r})\<rparr>"

fun apply_upd :: "upd \<Rightarrow> game \<Rightarrow> game" where
  "apply_upd (Set_finished b) g = g\<lparr>finished := b\<rparr>"
| "apply_upd (Set_result_description d) g = g\<lparr>result_description := d\<rparr>"
| "apply_upd (Set_result_winner w) g = g\<lparr>result_winner := w\<rparr>"
| "apply_upd (Set_white_time t) g = g\<lparr>white := (white g)\<lparr>ptime := t\<rparr>\<rparr>"
| "apply_upd (Set_black_time t) g = g\<lparr>black := (black g)\<lparr>ptime := t\<rparr>\<rparr>"
| "apply_upd (Set_white_username u) g = g\<lparr>white := (white g)\<lparr>username := u\<rparr>\<rparr>"
| "apply_upd (Set_black_username u) g = g\<lparr>black := (black g)\<lparr>username := u\<rparr>\<rparr>"
| "apply_upd (Set_guest u) g = g\<lparr>guest := u\<rparr>"
| "apply_upd (Set_joinable b) g = g\<lparr>joinable := b\<rparr>"
| "apply_upd (Set_fen f) g = g\<lparr>fen := f\<rparr>"
| "apply_upd (Set_lastMove m) g = g\<lparr>lastMove := Some m\<rparr>"
| "apply_upd (Set_pgn p) g = g\<lparr>pgn := p\<rparr>"
| "apply_upd (Set_moves ms) g = g\<lparr>moves := ms\<rparr>"
| "apply_upd (Set_started b) g = g\<lparr>started := b\<rparr>"

text \<open>
  \<open>insertOne\<close>: the driver supplies the new document's id; an id already in the
  collection is a duplicate-key error.
\<close>

definition createGame :: "game \<Rightarrow> string \<Rightarrow> server \<Rightarrow> exn + game \<times> server" where
  "createGame g new_id st =
     (if db_up st \<and> gameCollection st new_id = None
      then let g' = g\<lparr>game_id := new_id\<rparr>
           in Inr (g', st\<lparr>gameCollection := (gameCollection st)(new_id \<mapsto> g')\<rparr>)
      else Inl PersistenceError)"

definition getGame :: "string \<Rightarrow> server \<Rightarrow> exn + game option" where
  "getGame gameId st =
     (if db_up st then Inr (gameCollection st gameId) else Inl PersistenceError)"

text \<open>
  \<open>findOneAndUpdate\<close> with \<open>$set\<close>: a field-level merge that returns the updated
  document, or null when no document has the id. Every update sent is recorded.
\<close>

definition updateGame :: "string \<Rightarrow> upd list \<Rightarrow> server \<Rightarrow> exn + game option \<times> server" where
  "updateGame gameId us st =
     (if db_up st
      then let st' = st\<lparr>db_updates := db_updates st @ [(gameId, us)]\<rparr>
           in case gameCollection st gameId of
                None \<Rightarrow> Inr (None, st')
              | Some g \<Rightarrow>
                  let g' = fold apply_upd us g
                  in Inr (Some g', st'\<lparr>gameCollection := (gameCollection st)(gameId \<mapsto> g')\<rparr>)
      else Inl PersistenceError)"

subsection \<open>Blocks that several handlers repeat\<close>

text \<open>
  The lobby broadcast, written out in gameOver, newGame, joinGame and the host's
  acknowledgment loop: for every name \<open>u\<close> of the sockets object, in the order the
  names were inserted, the two lists without the entries whose host is \<open>u\<close>.
\<close>

definition gamesList_for :: "server \<Rightarrow> jval \<Rightarrow> message" where
  "gamesList_for st u =
     GamesList (filter (\<lambda>g. e_host g \<noteq> u) (joinableGames st))
               (filter (\<lambda>g. e_host g \<noteq> u) (watchableGames st))"

definition broadcast_gamesList :: "server \<Rightarrow> server" where
  "broadcast_gamesList st =
     st\<lparr>emitted := emitted st @
           map (\<lambda>(u, socketId). (Room socketId, gamesList_for st (Str u))) (sockets st)\<rparr>"

text \<open>
  \<open>if (timers[k].loop) { clearInterval(timers[k].loop); timers[k].loop = null; }\<close>:
  reading \<open>loop\<close> of a missing entry is a TypeError.
\<close>

definition stop_timer :: "string \<Rightarrow> server \<Rightarrow> exn + server" where
  "stop_timer k st =
     (case timers st k of
        None \<Rightarrow> Inl TypeError
      | Some tm \<Rightarrow>
          (case loop tm of
             None \<Rightarrow> Inr st
           | Some h \<Rightarrow> Inr ((clearInterval h st)\<lparr>timers := (timers st)(k \<mapsto> tm\<lparr>loop := None\<rparr>)\<rparr>)))"

definition remove_from_lobby :: "string \<Rightarrow> server \<Rightarrow> server" where
  "remove_from_lobby gameId st =
     st\<lparr>joinableGames := filter (\<lambda>g. e_gameId g \<noteq> gameId) (joinableGames st),
        watchableGames := filter (\<lambda>g. e_gameId g \<noteq> gameId) (watchableGames st)\<rparr>"

subsection \<open>gameOver\<close>

definition stop_player :: "jval \<Rightarrow> string \<Rightarrow> server \<Rightarrow> exn + server" where
  "stop_player p gameId st = (if truthy p then stop_timer (key p gameId) st else Inr st)"

definition stop_timesync :: "string \<Rightarrow> server \<Rightarrow> server" where
  "stop_timesync gameId st =
     (case timesync st gameId of
        None \<Rightarrow> st
      | Some s \<Rightarrow>
          (clearInterval (ackLoop s) (clearInterval (mainLoop s) st))
            \<lparr>timesync := (timesync st)(gameId := None)\<rparr>)"

definition finish_updates :: "resultData \<Rightarrow> int option \<Rightarrow> int option \<Rightarrow> upd list" where
  "finish_updates rd tWhite tBlack =
     [Set_finished True, Set_result_description (result rd), Set_result_winner (winner rd),
      Set_white_time tWhite, Set_black_time tBlack]"

text \<open>
  The result pairs the exception that left the function, if any, with the memory at that
  point: what was written before a throw stays written.
\<close>

definition gameOver ::
  "string \<Rightarrow> jval \<Rightarrow> jval \<Rightarrow> resultData \<Rightarrow> server \<Rightarrow> exn option \<times> server" where
  "gameOver gameId player1 player2 rd st =
     (case getGame gameId st of
        Inl e \<Rightarrow> (Some e, st)
      | Inr None \<Rightarrow> (Some TypeError, st)
      | Inr (Some g) \<Rightarrow>
     (case timers st (key (username (white g)) gameId) of
        None \<Rightarrow> (Some TypeError, st)
      | Some tw \<Rightarrow>
     (case timers st (key (username (black g)) gameId) of
        None \<Rightarrow> (Some TypeError, st)
      | Some tb \<Rightarrow>
     if finished g then (None, st)
     else
       let st1 = emit (Room gameId) (GameOver rd) st in
     (case stop_player player1 gameId st1 of
        Inl e \<Rightarrow> (Some e, st1)
      | Inr st2 \<Rightarrow>
     (case stop_player player2 gameId st2 of
        Inl e \<Rightarrow> (Some e, st2)
      | Inr st3 \<Rightarrow>
       let st4 = stop_timesync gameId st3 in
     (case updateGame gameId (finish_updates rd (max0 (time tw)) (max0 (time tb))) st4 of
        Inl e \<Rightarrow> (Some e, st4)
      | Inr (g', st5) \<Rightarrow>
          (None, emit (Room gameId) (UpdateGame g')
                   (broadcast_gamesList (remove_from_lobby gameId st5)))))))))"

subsection \<open>The interval callbacks\<close>

text \<open>
  The decrement loop started by the move handler; \<open>u\<close> is the mover who started it and
  \<open>opponent\<close> the participant whose clock it counts down.
\<close>

definition ontime :: "jval \<Rightarrow> resultData" where
  "ontime u = \<lparr>result = Str ''ontime'', winner = u\<rparr>"

definition tick :: "string \<Rightarrow> jval \<Rightarrow> jval \<Rightarrow> server \<Rightarrow> exn option \<times> server" where
  "tick gameId u opponent st =
     (case timers st (key opponent gameId) of
        None \<Rightarrow> (Some TypeError, st)
      | Some tm \<Rightarrow>
          let t' = decrement (time tm);
              st1 = st\<lparr>timers := (timers st)(key opponent gameId \<mapsto> tm\<lparr>time := t'\<rparr>)\<rparr>
          in if expired t' then gameOver gameId u opponent (ontime u) st1 else (None, st1))"

text \<open>
  The sync object \<open>{gameId, [white]: t, [black]: t}\<close> is a game id and the readings by
  name; a second assignment to the same name replaces the first.
\<close>

definition host_sync :: "string \<Rightarrow> jval \<Rightarrow> string \<Rightarrow> server \<Rightarrow> exn option \<times> server" where
  "host_sync gameId u sid st =
     (case timers st (key u gameId) of
        None \<Rightarrow> (Some TypeError, st)
      | Some tm \<Rightarrow> (None, emit (Socket sid) (Timesync gameId [(js_str u, max0 (time tm))]) st))"

definition gameTimeSync :: "string \<Rightarrow> jval \<Rightarrow> jval \<Rightarrow> server \<Rightarrow> exn option \<times> server" where
  "gameTimeSync gameId whiteUsername blackUsername st =
     (case timers st (key whiteUsername gameId) of
        None \<Rightarrow> (Some TypeError, st)
      | Some tw \<Rightarrow>
     (case timers st (key blackUsername gameId) of
        None \<Rightarrow> (Some TypeError, st)
      | Some tb \<Rightarrow>
          (None, emit (Room gameId)
                   (Timesync gameId
                      (AList.update (js_str blackUsername) (max0 (time tb))
                         [(js_str whiteUsername, max0 (time tw))])) st)))"

definition userTimeSync :: "jval \<Rightarrow> jval \<Rightarrow> jval \<Rightarrow> server \<Rightarrow> exn option \<times> server" where
  "userTimeSync u whiteUsername blackUsername st =
     (let gameId = js_str (lookup (currentGameId st) u) in
      case timers st (key whiteUsername gameId) of
        None \<Rightarrow> (Some TypeError, st)
      | Some tw \<Rightarrow>
     (case timers st (key blackUsername gameId) of
        None \<Rightarrow> (Some TypeError, st)
      | Some tb \<Rightarrow>
          (None, emit (Room (userRoom u (socket_of st u) gameId))
                   (Timesync gameId
                      (AList.update (js_str blackUsername) (max0 (time tb))
                         [(js_str whiteUsername, max0 (time tw))])) st)))"

definition stale :: "int \<Rightarrow> int \<Rightarrow> bool" where
  "stale now ack = (\<bar>now - ack\<bar> > TIMESYNC_TIMEOUT)"

definition abandonment :: "jval \<Rightarrow> resultData" where
  "abandonment w = \<lparr>result = Str ''abandonment'', winner = w\<rparr>"

text \<open>The acknowledgment loop of newGame: the host alone, no second seat yet.\<close>

definition host_ack :: "string \<Rightarrow> jval \<Rightarrow> int \<Rightarrow> server \<Rightarrow> exn option \<times> server" where
  "host_ack gameId u now st =
     (case timesync st gameId of
        None \<Rightarrow> (None, st)
      | Some s \<Rightarrow>
     (case lastTimeSync s (js_str u) of
        None \<Rightarrow> (Some TypeError, st)
      | Some ack \<Rightarrow>
          if stale now ack
          then gameOver gameId Null Null (abandonment Null)
                 (broadcast_gamesList (remove_from_lobby gameId st))
          else (None, st)))"

text \<open>The acknowledgment loop of joinGame: both seats taken.\<close>

definition game_ack :: "string \<Rightarrow> jval \<Rightarrow> jval \<Rightarrow> int \<Rightarrow> server \<Rightarrow> exn option \<times> server" where
  "game_ack gameId whiteUsername blackUsername now st =
     (case timesync st gameId of
        None \<Rightarrow> (Some TypeError, st)
      | Some s \<Rightarrow>
     (case lastTimeSync s (js_str whiteUsername) of
        None \<Rightarrow> (Some TypeError, st)
      | Some lastW \<Rightarrow>
     (case (if stale now lastW
            then gameOver gameId whiteUsername blackUsername (abandonment blackUsername) st
            else (None, st)) of
        (Some e, st1) \<Rightarrow> (Some e, st1)
      | (None, st1) \<Rightarrow>
     (case lastTimeSync s (js_str blackUsername) of
        None \<Rightarrow> (Some TypeError, st1)
      | Some lastB \<Rightarrow>
          if stale now lastB
          then gameOver gameId whiteUsername blackUsername (abandonment whiteUsername) st1
          else (None, st1)))))"

fun run_callback :: "callback \<Rightarrow> int \<Rightarrow> server \<Rightarrow> exn option \<times> server" where
  "run_callback (HostSync gameId u sid) now st = host_sync gameId u sid st"
| "run_callback (HostAck gameId u) now st = host_ack gameId u now st"
| "run_callback (GameSync gameId w b) now st = gameTimeSync gameId w b st"
| "run_callback (GameAck gameId w b) now st = game_ack gameId w b now st"
| "run_callback (Tick gameId u opponent) now st = tick gameId u opponent st"

text \<open>
  An interval that is still active fires at wall-clock time \<open>now\<close>. No callback has a
  try block: what it throws reaches the process.
\<close>

definition rejected :: "exn option \<times> server \<Rightarrow> server" where
  "rejected r = (case r of (None, st) \<Rightarrow> st | (Some e, st) \<Rightarrow> st\<lparr>unhandled := unhandled st @ [e]\<rparr>)"

definition fire :: "nat \<Rightarrow> int \<Rightarrow> server \<Rightarrow> server" where
  "fire h now st =
     (case map_of (intervals st) h of
        None \<Rightarrow> st
      | Some cb \<Rightarrow> rejected (run_callback cb now st))"

subsection \<open>The catch blocks\<close>

text \<open>
  A handler body returns the exception that reached the end of its try block, if any, and
  the memory at that point. Every handler's catch prints the error; those of newGame and
  joinGame also answer the socket with an error message.
\<close>

definition logged :: "exn option \<times> server \<Rightarrow> server" where
  "logged r = (case r of (None, st) \<Rightarrow> st | (Some e, st) \<Rightarrow> st\<lparr>console := console st @ [e]\<rparr>)"

definition answered :: "string \<Rightarrow> message \<Rightarrow> exn option \<times> server \<Rightarrow> server" where
  "answered sid m r =
     (case r of
        (None, st) \<Rightarrow> st
      | (Some e, st) \<Rightarrow> emit (Socket sid) m (st\<lparr>console := console st @ [e]\<rparr>))"

subsection \<open>username, disconnect, getGames\<close>

text \<open>\<open>users[socket.id] = username; sockets[username] = socket.id\<close>\<close>

definition register :: "string \<Rightarrow> jval \<Rightarrow> server \<Rightarrow> server" where
  "register sid name st =
     st\<lparr>users := (users st)(sid \<mapsto> name),
        sockets := AList.update (js_str name) sid (sockets st)\<rparr>"

definition stored_result :: "game \<Rightarrow> resultData" where
  "stored_result g = \<lparr>result = result_description g, winner = result_winner g\<rparr>"

definition replay_lastmove :: "jval \<Rightarrow> string \<Rightarrow> game \<Rightarrow> server \<Rightarrow> server" where
  "replay_lastmove u gameId g st =
     (if playerReceivedLastmove st (key u gameId) = Some True then st
      else let r = userRoom u (socket_of st u) gameId
           in emit (Room r) (UpdateGame (Some g))
                (emit (Room r) (Moved (lastMoveFromGame st gameId)) st))"

definition reconnect :: "string \<Rightarrow> jval \<Rightarrow> string \<Rightarrow> server \<Rightarrow> exn option \<times> server" where
  "reconnect sid u gameId st =
     (let st1 = join_room sid (userRoom u (Str sid) gameId) (join_room sid gameId st) in
      case getGame gameId st1 of
        Inl e \<Rightarrow> (Some e, st1)
      | Inr None \<Rightarrow> (Some TypeError, st1)
      | Inr (Some g) \<Rightarrow>
     (case (if finished g
            then userTimeSync u (username (white g)) (username (black g))
                   (emit (Room (userRoom u (Str sid) gameId)) (GameOver (stored_result g)) st1)
            else (None, st1)) of
        (Some e, st2) \<Rightarrow> (Some e, st2)
      | (None, st2) \<Rightarrow> (None, replay_lastmove u gameId g st2)))"

text \<open>
  \<open>data_username\<close> is the \<open>username\<close> field of the payload, of whatever type the
  client sent it, \<open>random_username\<close> the string \<open>utils.random_username()\<close> would
  return. A name that is already bound to this or another socket is rebound; the name this
  socket announced before, if any, stays in \<open>sockets\<close>.
\<close>

definition username_body :: "string \<Rightarrow> jval \<Rightarrow> string \<Rightarrow> server \<Rightarrow> exn option \<times> server" where
  "username_body sid data_username random_username st =
     (if truthy data_username
      then let st1 = register sid data_username st
           in case currentGameId st1 (js_str data_username) of
                None \<Rightarrow> (None, st1)
              | Some gameId \<Rightarrow>
                  if gameId = [] then (None, st1) else reconnect sid data_username gameId st1
      else (None, register sid (Str random_username)
                    (emit (Socket sid) (Username_msg random_username) st)))"

definition on_username :: "string \<Rightarrow> jval \<Rightarrow> string \<Rightarrow> server \<Rightarrow> server" where
  "on_username sid data_username random_username st =
     logged (username_body sid data_username random_username st)"

definition disconnect_body :: "string \<Rightarrow> server \<Rightarrow> exn option \<times> server" where
  "disconnect_body sid st =
     (let u = user_of st sid
      in (None, st\<lparr>users := (users st)(sid := None),
                   sockets := AList.delete (js_str u) (sockets st),
                   rooms := (rooms st)(sid := {})\<rparr>))"

definition on_disconnect :: "string \<Rightarrow> server \<Rightarrow> server" where
  "on_disconnect sid st = logged (disconnect_body sid st)"

definition getGames_body :: "string \<Rightarrow> server \<Rightarrow> exn option \<times> server" where
  "getGames_body sid st = (None, emit (Socket sid) (gamesList_for st (user_of st sid)) st)"

definition on_getGames :: "string \<Rightarrow> server \<Rightarrow> server" where
  "on_getGames sid st = logged (getGames_body sid st)"

subsection \<open>newGame\<close>

definition leave_previous :: "string \<Rightarrow> jval \<Rightarrow> server \<Rightarrow> server" where
  "leave_previous sid u st =
     (case currentGameId st (js_str u) of
        None \<Rightarrow> st
      | Some previousGameId \<Rightarrow>
          if previousGameId = [] then st
          else leave_room sid (userRoom u (socket_of st u) previousGameId)
                 (leave_room sid previousGameId st))"

definition enter_game :: "string \<Rightarrow> jval \<Rightarrow> string \<Rightarrow> server \<Rightarrow> server" where
  "enter_game sid u gameId st =
     (let st1 = join_room sid (userRoom u (Str sid) gameId) (join_room sid gameId st)
      in st1\<lparr>currentGameId := (currentGameId st1)(js_str u \<mapsto> gameId)\<rparr>)"

text \<open>The document newGame builds; \<open>createGame\<close> gives it its id.\<close>

definition fresh_game :: "chess \<Rightarrow> jval \<Rightarrow> string \<Rightarrow> string \<Rightarrow> game" where
  "fresh_game ch u orientation tc =
     \<lparr>game_id = [], host = u, guest = Null,
      white = \<lparr>username = (if orientation = ''white'' then u else Null), ptime = seconds tc\<rparr>,
      black = \<lparr>username = (if orientation = ''black'' then u else Null), ptime = seconds tc\<rparr>,
      timeControl = tc,
      fen = p_fen (initial ch), joinable = True, started = False, finished = False,
      lastMove = None,
      pgn = p_pgn (initial ch), moves = p_history (initial ch),
      result_description = Null, result_winner = Null\<rparr>"

definition host_timesync :: "string \<Rightarrow> jval \<Rightarrow> string \<Rightarrow> int \<Rightarrow> server \<Rightarrow> server" where
  "host_timesync sid u gameId now st =
     (case setInterval (HostSync gameId u sid) st of (h1, st1) \<Rightarrow>
      case setInterval (HostAck gameId u) st1 of (h2, st2) \<Rightarrow>
        st2\<lparr>timesync := (timesync st2)(gameId \<mapsto>
              \<lparr>mainLoop = h1, lastTimeSync = [js_str u \<mapsto> now], ackLoop = h2\<rparr>)\<rparr>)"

definition list_joinable :: "jval \<Rightarrow> game \<Rightarrow> server \<Rightarrow> server" where
  "list_joinable u g st =
     st\<lparr>joinableGames := filter (\<lambda>e. e_host e \<noteq> u) (joinableGames st) @
           [\<lparr>e_host = u, e_timeControl = timeControl g, e_gameId = game_id g\<rparr>]\<rparr>"

text \<open>
  \<open>heads\<close> is the outcome of \<open>Math.random() < 0.5\<close>, \<open>new_id\<close> the id the driver
  gives the inserted document, \<open>now\<close> the reading of \<open>new Date()\<close>. A payload without
  a time control fails at \<open>data.timeControl.split\<close>.
\<close>

definition newGame_body ::
  "chess \<Rightarrow> string \<Rightarrow> string option \<Rightarrow> bool \<Rightarrow> string \<Rightarrow> int \<Rightarrow> server \<Rightarrow> exn option \<times> server" where
  "newGame_body ch sid data_timeControl heads new_id now st =
     (let orientation = (if heads then ''white'' else ''black'');
          u = user_of st sid in
      case data_timeControl of
        None \<Rightarrow> (Some TypeError, st)
      | Some tc \<Rightarrow>
     (case createGame (fresh_game ch u orientation tc) new_id st of
        Inl e \<Rightarrow> (Some e, st)
      | Inr (g, st1) \<Rightarrow>
          let gameId = game_id g;
              st2 = enter_game sid u gameId (leave_previous sid u st1);
              st3 = emit (Room gameId) (GameCreated g) st2;
              st4 = st3\<lparr>timers := (timers st3)(key u gameId \<mapsto>
                          \<lparr>loop = None, time = seconds (timeControl g)\<rparr>)\<rparr>;
              st5 = host_timesync sid u gameId now st4
          in (None, broadcast_gamesList (list_joinable u g st5))))"

definition on_newGame ::
  "chess \<Rightarrow> string \<Rightarrow> string option \<Rightarrow> bool \<Rightarrow> string \<Rightarrow> int \<Rightarrow> server \<Rightarrow> server" where
  "on_newGame ch sid data_timeControl heads new_id now st =
     answered sid GameCreated_error (newGame_body ch sid data_timeControl heads new_id now st)"

subsection \<open>joinGame\<close>

definition is_watcher :: "game \<Rightarrow> jval \<Rightarrow> bool" where
  "is_watcher g u = (\<not> joinable g \<or> finished g \<or> host g = u)"

definition game_timesync :: "jval \<Rightarrow> string \<Rightarrow> game \<Rightarrow> int \<Rightarrow> server \<Rightarrow> exn option \<times> server" where
  "game_timesync u gameId g now st =
     (let whiteUsername = username (white g);
          blackUsername = username (black g);
          st1 = (case timesync st gameId of
                   None \<Rightarrow> st
                 | Some s \<Rightarrow> clearInterval (ackLoop s) (clearInterval (mainLoop s) st))
      in case timesync st1 gameId of
           None \<Rightarrow> (Some TypeError, st1)
         | Some s \<Rightarrow>
             let lastTimeSync' = (lastTimeSync s)(js_str u \<mapsto> now)
             in case setInterval (GameSync gameId whiteUsername blackUsername) st1 of (h1, st2) \<Rightarrow>
                case setInterval (GameAck gameId whiteUsername blackUsername) st2 of (h2, st3) \<Rightarrow>
                  (None, st3\<lparr>timesync := (timesync st3)(gameId \<mapsto>
                           \<lparr>mainLoop = h1, lastTimeSync = lastTimeSync', ackLoop = h2\<rparr>)\<rparr>))"

text \<open>The block of a joiner who takes the empty seat; it returns the updated document.\<close>

definition take_seat ::
  "string \<Rightarrow> jval \<Rightarrow> game \<Rightarrow> int \<Rightarrow> server \<Rightarrow> exn option \<times> game \<times> server" where
  "take_seat gameId u g now st =
     (let orientation = (if truthy (username (white g)) then ''black'' else ''white'');
          update = (if orientation = ''white'' then [Set_white_username u]
                    else [Set_black_username u]) @ [Set_guest u, Set_joinable False];
          opponent = (if orientation = ''white'' then username (black g)
                      else username (white g))
      in case updateGame gameId update st of
           Inl e \<Rightarrow> (Some e, g, st)
         | Inr (g1, st1) \<Rightarrow>
             let st2 = emit (Room (userRoom opponent (socket_of st1 opponent) gameId))
                         (UpdateGame g1) st1
             in case g1 of
                  None \<Rightarrow> (Some TypeError, g, st2)
                | Some g' \<Rightarrow>
                    let st3 = st2\<lparr>timers := (timers st2)(key u gameId \<mapsto>
                                \<lparr>loop = None, time = seconds (timeControl g')\<rparr>)\<rparr>
                    in (case game_timesync u gameId g' now st3 of
                          (e, st4) \<Rightarrow> (e, g', st4)))"

definition watchable_entry :: "string \<Rightarrow> game \<Rightarrow> entry" where
  "watchable_entry gameId g =
     \<lparr>e_host = Str (js_str (username (white g)) @ '' vs '' @ js_str (username (black g))),
      e_timeControl = timeControl g, e_gameId = gameId\<rparr>"

definition list_watchable :: "string \<Rightarrow> game \<Rightarrow> server \<Rightarrow> server" where
  "list_watchable gameId g st =
     (let st1 = st\<lparr>joinableGames := filter (\<lambda>e. e_gameId e \<noteq> gameId) (joinableGames st)\<rparr>;
          alreadyWatchable = (gameId \<in> e_gameId ` set (watchableGames st1))
      in if \<not> alreadyWatchable \<and> \<not> finished g
         then st1\<lparr>watchableGames := watchableGames st1 @ [watchable_entry gameId g]\<rparr>
         else st1)"

definition show_finished :: "string \<Rightarrow> jval \<Rightarrow> string \<Rightarrow> game \<Rightarrow> server \<Rightarrow> server" where
  "show_finished sid u gameId g st =
     (if finished g
      then emit (Room (userRoom u (socket_of st u) gameId))
             (Timesync gameId
                (AList.update (js_str (username (black g))) (ptime (black g))
                   [(js_str (username (white g)), ptime (white g))]))
             (emit (Room (userRoom u (Str sid) gameId)) (GameOver (stored_result g)) st)
      else st)"

definition joinGame_body :: "string \<Rightarrow> string \<Rightarrow> int \<Rightarrow> server \<Rightarrow> exn option \<times> server" where
  "joinGame_body sid gameId now st =
     (let u = user_of st sid in
      case getGame gameId st of
        Inl e \<Rightarrow> (Some e, st)
      | Inr None \<Rightarrow> (Some TypeError, st)
      | Inr (Some g0) \<Rightarrow>
          let watcher = is_watcher g0 u in
     (case (if watcher then (None, g0, st) else take_seat gameId u g0 now st) of
        (Some e, g, st1) \<Rightarrow> (Some e, st1)
      | (None, g, st1) \<Rightarrow>
          let st2 = enter_game sid u gameId (leave_previous sid u st1);
              st3 = emit (Room sid) (GameJoined g watcher) st2;
              st4 = show_finished sid u gameId g (list_watchable gameId g st3)
          in (None, broadcast_gamesList st4)))"

definition on_joinGame :: "string \<Rightarrow> string \<Rightarrow> int \<Rightarrow> server \<Rightarrow> server" where
  "on_joinGame sid gameId now st = answered sid GameJoined_error (joinGame_body sid gameId now st)"

subsection \<open>move\<close>

definition orientation_of :: "jval \<Rightarrow> jval \<Rightarrow> string" where
  "orientation_of u whiteUsername = (if u = whiteUsername then ''white'' else ''black'')"

definition opponent_of :: "jval \<Rightarrow> game \<Rightarrow> jval" where
  "opponent_of u g =
     (if u = username (white g) then username (black g) else username (white g))"

text \<open>
  \<open>timers[opponent+gameId] = {loop: setInterval(...), time: timers[opponent+gameId].time}\<close>:
  the interval is created first, then the old reading is looked up (a TypeError when
  the entry is missing), then the entry is replaced. The handle the old entry held is
  not cleared.
\<close>

definition start_timer :: "string \<Rightarrow> jval \<Rightarrow> jval \<Rightarrow> server \<Rightarrow> exn option \<times> server" where
  "start_timer gameId u opponent st =
     (case setInterval (Tick gameId u opponent) st of (h, st1) \<Rightarrow>
     (case timers st1 (key opponent gameId) of
        None \<Rightarrow> (Some TypeError, st1)
      | Some tm \<Rightarrow>
          (None, st1\<lparr>timers := (timers st1)(key opponent gameId \<mapsto>
                   \<lparr>loop = Some h, time = time tm\<rparr>)\<rparr>)))"

text \<open>
  The clock switch: the mover's timer is stopped; the opponent's is started when the
  mover is not white or the game is marked started, and then the started flag is written.
  It returns the value of the handler's \<open>game\<close> variable.
\<close>

definition switch_clocks ::
  "movedata \<Rightarrow> game \<Rightarrow> server \<Rightarrow> exn option \<times> game option \<times> server" where
  "switch_clocks md g st =
     (let u = m_username md; gameId = m_gameId md;
          opponent = opponent_of u g;
          orientation = orientation_of u (username (white g))
      in case stop_timer (key u gameId) st of
           Inl e \<Rightarrow> (Some e, Some g, st)
         | Inr st1 \<Rightarrow>
             if orientation = ''black'' \<or> started g
             then (case start_timer gameId u opponent st1 of
                     (Some e, st2) \<Rightarrow> (Some e, Some g, st2)
                   | (None, st2) \<Rightarrow>
                       (case updateGame gameId [Set_started True] st2 of
                          Inl e \<Rightarrow> (Some e, Some g, st2)
                        | Inr (g', st3) \<Rightarrow> (None, g', st3)))
             else (None, Some g, st1))"

definition draw_kind :: "position \<Rightarrow> jval" where
  "draw_kind pos =
     (if p_in_draw pos
      then (if p_in_stalemate pos then Str ''draw.stalemate''
            else if p_in_threefold_repetition pos then Str ''draw.threefold_repetition''
            else if p_insufficient_material pos then Str ''draw.insufficient_material''
            else Undefined)
      else Undefined)"

definition result_of :: "position \<Rightarrow> jval \<Rightarrow> resultData" where
  "result_of pos u =
     (if p_in_checkmate pos then \<lparr>result = Str ''checkmate'', winner = u\<rparr>
      else \<lparr>result = draw_kind pos, winner = Null\<rparr>)"

definition move_updates :: "position \<Rightarrow> string \<Rightarrow> upd list" where
  "move_updates pos mv =
     [Set_fen (p_fen pos), Set_lastMove mv, Set_pgn (p_pgn pos), Set_moves (p_history pos)]"

definition record_move :: "movedata \<Rightarrow> game \<Rightarrow> server \<Rightarrow> server" where
  "record_move md g st =
     emit (Room (m_gameId md)) (Moved (Some md))
       (st\<lparr>lastMoveFromGame := (lastMoveFromGame st)(m_gameId md \<mapsto> md),
           playerReceivedLastmove :=
             (playerReceivedLastmove st)
               (key (username (black g)) (m_gameId md) \<mapsto> False,
                key (username (white g)) (m_gameId md) \<mapsto> False)\<rparr>)"

definition notify_players :: "string \<Rightarrow> game \<Rightarrow> game option \<Rightarrow> server \<Rightarrow> server" where
  "notify_players gameId g g' st =
     (let blackUsername = username (black g); whiteUsername = username (white g)
      in emit (Room (userRoom whiteUsername (socket_of st whiteUsername) gameId)) (UpdateGame g')
           (emit (Room (userRoom blackUsername (socket_of st blackUsername) gameId))
              (UpdateGame g') st))"

definition move_body :: "chess \<Rightarrow> movedata \<Rightarrow> server \<Rightarrow> exn option \<times> server" where
  "move_body ch md st =
     (let u = m_username md; gameId = m_gameId md; mv = m_move md in
      case getGame gameId st of
        Inl e \<Rightarrow> (Some e, st)
      | Inr None \<Rightarrow> (Some TypeError, st)
      | Inr (Some g0) \<Rightarrow>
     if finished g0 then (None, st)
     else
     (case play ch (pgn g0) mv of
        Inl e \<Rightarrow> (Some e, st)
      | Inr pos \<Rightarrow>
     (case updateGame gameId (move_updates pos mv) st of
        Inl e \<Rightarrow> (Some e, st)
      | Inr (None, st1) \<Rightarrow> (Some TypeError, st1)
      | Inr (Some g, st1) \<Rightarrow>
     (case switch_clocks md g (record_move md g st1) of
        (Some e, g', st2) \<Rightarrow> (Some e, st2)
      | (None, g', st2) \<Rightarrow>
          if p_game_over pos
          then gameOver gameId u (opponent_of u g) (result_of pos u) st2
          else (None, notify_players gameId g g' st2)))))"

text \<open>\<open>sid\<close> is the id of the socket the event arrived on.\<close>

definition on_move :: "chess \<Rightarrow> string \<Rightarrow> movedata \<Rightarrow> server \<Rightarrow> server" where
  "on_move ch sid md st = logged (move_body ch md st)"

subsection \<open>resign, syncAck, moveAck, updatedShapes\<close>

definition resignation :: "jval \<Rightarrow> resultData" where
  "resignation w = \<lparr>result = Str ''resignation'', winner = w\<rparr>"

text \<open>
  Without a current game the lookup \<open>getGame(undefined)\<close> finds no document, and
  reading its players is a TypeError.
\<close>

definition resign_body :: "string \<Rightarrow> server \<Rightarrow> exn option \<times> server" where
  "resign_body sid st =
     (let u = user_of st sid in
      case currentGameId st (js_str u) of
        None \<Rightarrow> (Some (if db_up st then TypeError else PersistenceError), st)
      | Some gameId \<Rightarrow>
     (case getGame gameId st of
        Inl e \<Rightarrow> (Some e, st)
      | Inr None \<Rightarrow> (Some TypeError, st)
      | Inr (Some g) \<Rightarrow>
          if u = username (white g) \<or> u = username (black g)
          then (if finished g then (None, st)
                else gameOver gameId u (opponent_of u g) (resignation (opponent_of u g)) st)
          else (None, st)))"

definition on_resign :: "string \<Rightarrow> server \<Rightarrow> server" where
  "on_resign sid st = logged (resign_body sid st)"

definition syncAck_body :: "string \<Rightarrow> int \<Rightarrow> server \<Rightarrow> exn option \<times> server" where
  "syncAck_body sid now st =
     (let u = user_of st sid in
      case currentGameId st (js_str u) of
        None \<Rightarrow> (None, st)
      | Some gameId \<Rightarrow>
     (case timesync st gameId of
        None \<Rightarrow> (None, st)
      | Some s \<Rightarrow>
          (None, st\<lparr>timesync := (timesync st)(gameId \<mapsto>
                   s\<lparr>lastTimeSync := (lastTimeSync s)(js_str u \<mapsto> now)\<rparr>)\<rparr>)))"

definition on_syncAck :: "string \<Rightarrow> int \<Rightarrow> server \<Rightarrow> server" where
  "on_syncAck sid now st = logged (syncAck_body sid now st)"

definition moveAck_body :: "string \<Rightarrow> server \<Rightarrow> exn option \<times> server" where
  "moveAck_body sid st =
     (let u = user_of st sid; gameId = js_str (lookup (currentGameId st) u)
      in (None, st\<lparr>playerReceivedLastmove :=
                    (playerReceivedLastmove st)(key u gameId \<mapsto> True)\<rparr>))"

definition on_moveAck :: "string \<Rightarrow> server \<Rightarrow> server" where
  "on_moveAck sid st = logged (moveAck_body sid st)"

text \<open>The annotation payload is rebroadcast to the room its \<open>gameId\<close> names.\<close>

definition updatedShapes_body :: "string \<Rightarrow> string \<Rightarrow> server \<Rightarrow> exn option \<times> server" where
  "updatedShapes_body gameId shapes st = (None, emit (Room gameId) (SyncShapes shapes) st)"

definition on_updatedShapes :: "string \<Rightarrow> string \<Rightarrow> string \<Rightarrow> server \<Rightarrow> server" where
  "on_updatedShapes sid gameId shapes st = logged (updatedShapes_body gameId shapes st)"

subsection \<open>The event loop\<close>

datatype event =
    Username_ev string jval string
  | Disconnect string
  | GetGames string
  | NewGame string "string option" bool string int
  | JoinGame string string int
  | Move string movedata
  | Resign string
  | SyncAck string int
  | MoveAck string
  | UpdatedShapes string string string

text \<open>What the try block of an inbound event's handler does.\<close>

fun body_of :: "chess \<Rightarrow> event \<Rightarrow> server \<Rightarrow> exn option \<times> server" where
  "body_of ch (Username_ev sid du rnd) st = username_body sid du rnd st"
| "body_of ch (Disconnect sid) st = disconnect_body sid st"
| "body_of ch (GetGames sid) st = getGames_body sid st"
| "body_of ch (NewGame sid tc heads new_id now) st = newGame_body ch sid tc heads new_id now st"
| "body_of ch (JoinGame sid gameId now) st = joinGame_body sid gameId now st"
| "body_of ch (Move sid md) st = move_body ch md st"
| "body_of ch (Resign sid) st = resign_body sid st"
| "body_of ch (SyncAck sid now) st = syncAck_body sid now st"
| "body_of ch (MoveAck sid) st = moveAck_body sid st"
| "body_of ch (UpdatedShapes sid gameId shapes) st = updatedShapes_body gameId shapes st"

fun handle :: "chess \<Rightarrow> event \<Rightarrow> server \<Rightarrow> server" where
  "handle ch (Username_ev sid du rnd) st = on_username sid du rnd st"
| "handle ch (Disconnect sid) st = on_disconnect sid st"
| "handle ch (GetGames sid) st = on_getGames sid st"
| "handle ch (NewGame sid tc heads new_id now) st = on_newGame ch sid tc heads new_id now st"
| "handle ch (JoinGame sid gameId now) st = on_joinGame sid gameId now st"
| "handle ch (Move sid md) st = on_move ch sid md st"
| "handle ch (Resign sid) st = on_resign sid st"
| "handle ch (SyncAck sid now) st = on_syncAck sid now st"
| "handle ch (MoveAck sid) st = on_moveAck sid st"
| "handle ch (UpdatedShapes sid gameId shapes) st = on_updatedShapes sid gameId shapes st"

text \<open>The memory of a server that has just started, its database connected.\<close>

definition boot :: server where
  "boot = \<lparr>users = Map.empty, sockets = [], timers = Map.empty, timesync = Map.empty,
           currentGameId = Map.empty, joinableGames = [], watchableGames = [],
           playerReceivedLastmove = Map.empty, lastMoveFromGame = Map.empty,
           gameCollection = Map.empty, db_up = True, db_updates = [],
           intervals = [], next_handle = 0, rooms = (\<lambda>_. {}),
           emitted = [], console = [], unhandled = []\<rparr>"

section \<open>What the claims speak about\<close>

subsection \<open>Messages a step adds, lobby listings and their viewers, what steps keep\<close>

text \<open>The messages emitted between two memories, oldest first.\<close>

definition news :: "server \<Rightarrow> server \<Rightarrow> (target \<times> message) list" where
  "news st st' = drop (length (emitted st)) (emitted st')"

text \<open>
  The participant a message is addressed to: the name the users object holds for the
  socket whose room the message is sent to, or for the socket it is sent on.
\<close>

fun viewer :: "server \<Rightarrow> target \<Rightarrow> jval" where
  "viewer st (Room r) = user_of st r"
| "viewer st (Socket s) = user_of st s"

text \<open>
  A lobby listing that shows the participant it is addressed to a joinable game hosted
  by that participant. No other message does.
\<close>

definition shows_own_game :: "server \<Rightarrow> target \<times> message \<Rightarrow> bool" where
  "shows_own_game st e =
     (case snd e of
        GamesList js ws \<Rightarrow> list_ex (\<lambda>g. e_host g = viewer st (fst e)) js
      | _ \<Rightarrow> False)"

text \<open>
  What every handler body and every interval callback keeps: the console and the list of
  unhandled rejections are untouched, messages and database updates are only added, and
  a game stored as started stays stored as started.
\<close>

definition keeps :: "server \<Rightarrow> server \<Rightarrow> bool" where
  "keeps st st' \<longleftrightarrow>
     console st' = console st \<and> unhandled st' = unhandled st \<and>
     (\<exists>es. emitted st' = emitted st @ es) \<and>
     (\<exists>ws. db_updates st' = db_updates st @ ws) \<and>
     (\<forall>gameId. map_option started (gameCollection st gameId) = Some True \<longrightarrow>
                map_option started (gameCollection st' gameId) = Some True)"

text \<open>
  What the steps after the position update of a move keep: the last move on record, a
  view of every stored game, and the logged updates that satisfy \<open>W\<close>.
\<close>

definition undisturbed ::
  "(game \<Rightarrow> 'a) \<Rightarrow> (upd list \<Rightarrow> bool) \<Rightarrow> server \<Rightarrow> server \<Rightarrow> bool" where
  "undisturbed view W st st' \<longleftrightarrow>
     lastMoveFromGame st' = lastMoveFromGame st \<and>
     (\<forall>gameId. map_option view (gameCollection st' gameId) =
                map_option view (gameCollection st gameId)) \<and>
     filter (\<lambda>w. W (snd w)) (db_updates st') = filter (\<lambda>w. W (snd w)) (db_updates st)"

text \<open>The part of a game document the move handler takes from the rules oracle.\<close>

definition placement :: "game \<Rightarrow> string \<times> string option \<times> string \<times> string list" where
  "placement g = (fen g, lastMove g, pgn g, moves g)"

definition writes_started :: "upd list \<Rightarrow> bool" where
  "writes_started us = (Set_started True \<in> set us)"

text \<open>What a handler's catch block sends back on the socket of the event.\<close>

fun error_reply :: "event \<Rightarrow> (target \<times> message) list" where
  "error_reply (NewGame sid tc heads new_id now) = [(Socket sid, GameCreated_error)]"
| "error_reply (JoinGame sid gameId now) = [(Socket sid, GameJoined_error)]"
| "error_reply (Username_ev sid du rnd) = []"
| "error_reply (Disconnect sid) = []"
| "error_reply (GetGames sid) = []"
| "error_reply (Move sid md) = []"
| "error_reply (Resign sid) = []"
| "error_reply (SyncAck sid now) = []"
| "error_reply (MoveAck sid) = []"
| "error_reply (UpdatedShapes sid gameId shapes) = []"

subsection \<open>Clocks\<close>

text \<open>
  The memory once the timer under key \<open>k\<close> is stopped: what \<open>stop_timer\<close> returns
  where the entry exists.
\<close>

definition pause :: "string \<Rightarrow> server \<Rightarrow> server" where
  "pause k st =
     (case timers st k of
        None \<Rightarrow> st
      | Some tm \<Rightarrow>
          (case loop tm of
             None \<Rightarrow> st
           | Some h \<Rightarrow> st\<lparr>intervals := filter (\<lambda>p. fst p \<noteq> h) (intervals st),
                          timers := (timers st)(k \<mapsto> tm\<lparr>loop := None\<rparr>)\<rparr>))"

text \<open>\<open>stop_player\<close> where the entry exists: only a truthy name has its timer stopped.\<close>

definition halt :: "jval \<Rightarrow> string \<Rightarrow> server \<Rightarrow> server" where
  "halt p gameId st = (if truthy p then pause (key p gameId) st else st)"

text \<open>
  The memory gameOver leaves behind on an unfinished game whose clock entries exist;
  \<open>tw\<close> and \<open>tb\<close> are the entries of white and black read at the call.
\<close>

definition finalized :: "string \<Rightarrow> jval \<Rightarrow> jval \<Rightarrow> resultData \<Rightarrow> game \<Rightarrow> timer \<Rightarrow> timer \<Rightarrow> server \<Rightarrow> server" where
  "finalized gameId p1 p2 rd g tw tb st =
     (let st4 = stop_timesync gameId (halt p2 gameId (halt p1 gameId (emit (Room gameId) (GameOver rd) st)));
          us = finish_updates rd (max0 (time tw)) (max0 (time tb));
          g' = fold apply_upd us g;
          st5 = st4\<lparr>db_updates := db_updates st4 @ [(gameId, us)],
                    gameCollection := (gameCollection st4)(gameId \<mapsto> g')\<rparr>
      in emit (Room gameId) (UpdateGame (Some g')) (broadcast_gamesList (remove_from_lobby gameId st5)))"


subsection \<open>Decrement loops\<close>

text \<open>The active intervals that count down the clock stored under key \<open>k\<close>.\<close>

fun counts_down :: "string \<Rightarrow> callback \<Rightarrow> bool" where
  "counts_down k (Tick gameId u opponent) = (key opponent gameId = k)"
| "counts_down k (HostSync gameId u sid) = False"
| "counts_down k (HostAck gameId u) = False"
| "counts_down k (GameSync gameId w b) = False"
| "counts_down k (GameAck gameId w b) = False"

definition decrement_loops :: "server \<Rightarrow> string \<Rightarrow> (nat \<times> callback) list" where
  "decrement_loops st k = filter (\<lambda>p. counts_down k (snd p)) (intervals st)"

definition gameOver_messages :: "(target \<times> message) list \<Rightarrow> (target \<times> message) list" where
  "gameOver_messages es = filter (\<lambda>e. case snd e of GameOver rd \<Rightarrow> True | _ \<Rightarrow> False) es"

text \<open>The updates sent to the database that set the started flag to true.\<close>

definition started_writes :: "server \<Rightarrow> (string \<times> upd list) list" where
  "started_writes st = filter (\<lambda>w. Set_started True \<in> set (snd w)) (db_updates st)"

subsection \<open>A game for the examples\<close>

text \<open>
  chess.js on the line 1. e4 e5 2. Nf3, by the PGN loaded and the move played. In each of
  these positions every move other than the one listed is taken as rejected, which is
  what chess.js does with the moves of the examples that are illegal where they are sent
  (1... e5 on the unmoved board, or a second time once it is played): \<open>move()\<close> returns
  null and the position stays. chess.js is not told who sends a move. A PGN outside the
  line is never loaded below.
\<close>

definition start_position :: position where
  "start_position =
     \<lparr>p_fen = ''rnbqkbnr/pppppppp/8/8/8/8/PPPPPPPP/RNBQKBNR w KQkq - 0 1'',
      p_pgn = [], p_history = [], p_game_over = False, p_in_checkmate = False,
      p_in_draw = False, p_in_stalemate = False, p_in_threefold_repetition = False,
      p_insufficient_material = False\<rparr>"

definition after_e4 :: position where
  "after_e4 = start_position
     \<lparr>p_fen := ''rnbqkbnr/pppppppp/8/8/4P3/8/PPPP1PPP/RNBQKBNR b KQkq e3 0 1'',
      p_pgn := ''1. e4'', p_history := [''e4'']\<rparr>"

definition after_e5 :: position where
  "after_e5 = start_position
     \<lparr>p_fen := ''rnbqkbnr/pppp1ppp/8/4p3/4P3/8/PPPP1PPP/RNBQKBNR w KQkq e6 0 2'',
      p_pgn := ''1. e4 e5'', p_history := [''e4'', ''e5'']\<rparr>"

definition after_Nf3 :: position where
  "after_Nf3 = start_position
     \<lparr>p_fen := ''rnbqkbnr/pppp1ppp/8/4p3/4P3/5N2/PPPP1PPP/RNBQKB1R b KQkq - 1 2'',
      p_pgn := ''1. e4 e5 2. Nf3'', p_history := [''e4'', ''e5'', ''Nf3'']\<rparr>"

definition kings_pawn_play :: "string \<Rightarrow> string \<Rightarrow> exn + position" where
  "kings_pawn_play p mv =
     (if p = [] then Inr (if mv = ''e4'' then after_e4 else start_position)
      else if p = ''1. e4'' then Inr (if mv = ''e5'' then after_e5 else after_e4)
      else if p = ''1. e4 e5'' then Inr (if mv = ''Nf3'' then after_Nf3 else after_e5)
      else Inr after_Nf3)"

definition kings_pawn :: chess where
  "kings_pawn = \<lparr>initial = start_position, play = kings_pawn_play\<rparr>"

definition gid0 :: string where
  "gid0 = ''5f1d7f3e8b0c2a0017a1b2c3''"

definition alice :: jval where
  "alice = Str ''alice''"

definition bob :: jval where
  "bob = Str ''bob''"

definition sends :: "jval \<Rightarrow> string \<Rightarrow> movedata" where
  "sends u mv = \<lparr>m_username = u, m_gameId = gid0, m_fen = [], m_move = mv\<rparr>"

text \<open>
  Two sockets announce alice and bob; alice creates a 5+0 game and is given white; bob
  joins it.
\<close>

definition lobby :: server where
  "lobby = handle kings_pawn (Username_ev ''sockB'' bob [])
             (handle kings_pawn (Username_ev ''sockA'' alice []) boot)"

definition opened :: server where
  "opened = handle kings_pawn (NewGame ''sockA'' (Some ''5+0'') True gid0 1000) lobby"

definition seated :: server where
  "seated = handle kings_pawn (JoinGame ''sockB'' gid0 2000) opened"

text \<open>
  The game document at each stage, and the server's memory after each of the first events:
  after the two announcements, after alice's newGame, after bob's joinGame, after alice's
  1. e4 and after bob's reply 1... e5.
\<close>

definition first_move :: server where
  "first_move = handle kings_pawn (Move ''sockA'' (sends alice ''e4'')) seated"

definition reply :: server where
  "reply = handle kings_pawn (Move ''sockB'' (sends bob ''e5'')) first_move"

definition game0 :: game where
  "game0 =
     \<lparr>game_id = gid0,
      host = alice,
      guest = Null,
      white = \<lparr>username = alice, ptime = Some 300\<rparr>,
      black = \<lparr>username = Null, ptime = Some 300\<rparr>,
      timeControl = ''5+0'',
      fen = ''rnbqkbnr/pppppppp/8/8/8/8/PPPPPPPP/RNBQKBNR w KQkq - 0 1'',
      joinable = True,
      started = False,
      finished = False,
      lastMove = None,
      pgn = [],
      moves = [],
      result_description = Null,
      result_winner = Null\<rparr>"

definition game1 :: game where
  "game1 =
     \<lparr>game_id = gid0,
      host = alice,
      guest = bob,
      white = \<lparr>username = alice, ptime = Some 300\<rparr>,
      black = \<lparr>username = bob, ptime = Some 300\<rparr>,
      timeControl = ''5+0'',
      fen = ''rnbqkbnr/pppppppp/8/8/8/8/PPPPPPPP/RNBQKBNR w KQkq - 0 1'',
      joinable = False,
      started = False,
      finished = False,
      lastMove = None,
      pgn = [],
      moves = [],
      result_description = Null,
      result_winner = Null\<rparr>"

definition game2 :: game where
  "game2 =
     \<lparr>game_id = gid0,
      host = alice,
      guest = bob,
      white = \<lparr>username = alice, ptime = Some 300\<rparr>,
      black = \<lparr>username = bob, ptime = Some 300\<rparr>,
      timeControl = ''5+0'',
      fen = ''rnbqkbnr/pppppppp/8/8/4P3/8/PPPP1PPP/RNBQKBNR b KQkq e3 0 1'',
      joinable = False,
      started = False,
      finished = False,
      lastMove = Some ''e4'',
      pgn = ''1. e4'',
      moves = [''e4''],
      result_description = Null,
      result_winner = Null\<rparr>"

definition game3 :: game where
  "game3 =
     \<lparr>game_id = gid0,
      host = alice,
      guest = bob,
      white = \<lparr>username = alice, ptime = Some 300\<rparr>,
      black = \<lparr>username = bob, ptime = Some 300\<rparr>,
      timeControl = ''5+0'',
      fen = ''rnbqkbnr/pppp1ppp/8/4p3/4P3/8/PPPP1PPP/RNBQKBNR w KQkq e6 0 2'',
      joinable = False,
      started = True,
      finished = False,
      lastMove = Some ''e5'',
      pgn = ''1. e4 e5'',
      moves = [''e4'', ''e5''],
      result_description = Null,
      result_winner = Null\<rparr>"

definition lobby_memory :: server where
  "lobby_memory =
     \<lparr>users = [''sockA'' \<mapsto> alice, ''sockB'' \<mapsto> bob],
      sockets = [(''alice'', ''sockA''), (''bob'', ''sockB'')],
      timers = Map.empty,
      timesync = Map.empty,
      currentGameId = Map.empty,
      joinableGames = [],
      watchableGames = [],
      playerReceivedLastmove = Map.empty,
      lastMoveFromGame = Map.empty,
      gameCollection = Map.empty,
      db_up = True,
      db_updates = [],
      intervals = [],
      next_handle = 0,
      rooms = (\<lambda>_. {}),
      emitted = [],
      console = [],
      unhandled = []\<rparr>"

definition opened_memory :: server where
  "opened_memory =
     \<lparr>users = [''sockA'' \<mapsto> alice, ''sockB'' \<mapsto> bob],
      sockets = [(''alice'', ''sockA''), (''bob'', ''sockB'')],
      timers = [''alice5f1d7f3e8b0c2a0017a1b2c3'' \<mapsto> \<lparr>loop = None,
         time = Some 300\<rparr>],
      timesync = [gid0 \<mapsto> \<lparr>mainLoop = 0,
         lastTimeSync = [''alice'' \<mapsto> 1000], ackLoop = Suc 0\<rparr>],
      currentGameId = [''alice'' \<mapsto> gid0],
      joinableGames = [\<lparr>e_host = alice, e_timeControl = ''5+0'',
         e_gameId = gid0\<rparr>],
      watchableGames = [],
      playerReceivedLastmove = Map.empty,
      lastMoveFromGame = Map.empty,
      gameCollection = [gid0 \<mapsto> game0],
      db_up = True,
      db_updates = [],
      intervals = [(0, HostSync gid0 alice ''sockA''), (Suc 0, HostAck gid0 alice)],
      next_handle = Suc (Suc 0),
      rooms = (\<lambda>_. {}) (''sockA'' := {''alicesockA5f1d7f3e8b0c2a0017a1b2c3'', gid0}),
      emitted = [(Room gid0, GameCreated game0), (Room ''sockA'', GamesList [] []),
         (Room ''sockB'', GamesList [\<lparr>e_host = alice, e_timeControl = ''5+0'',
         e_gameId = gid0\<rparr>] [])],
      console = [],
      unhandled = []\<rparr>"

definition seated_memory :: server where
  "seated_memory =
     \<lparr>users = [''sockA'' \<mapsto> alice, ''sockB'' \<mapsto> bob],
      sockets = [(''alice'', ''sockA''), (''bob'', ''sockB'')],
      timers = [''alice5f1d7f3e8b0c2a0017a1b2c3'' \<mapsto> \<lparr>loop = None,
         time = Some 300\<rparr>, ''bob5f1d7f3e8b0c2a0017a1b2c3'' \<mapsto> \<lparr>loop = None,
         time = Some 300\<rparr>],
      timesync = [gid0 \<mapsto> \<lparr>mainLoop = Suc (Suc 0),
         lastTimeSync = [''alice'' \<mapsto> 1000, ''bob'' \<mapsto> 2000],
         ackLoop = Suc (Suc (Suc 0))\<rparr>],
      currentGameId = [''alice'' \<mapsto> gid0, ''bob'' \<mapsto> gid0],
      joinableGames = [],
      watchableGames = [\<lparr>e_host = Str ''alice vs bob'', e_timeControl = ''5+0'',
         e_gameId = gid0\<rparr>],
      playerReceivedLastmove = Map.empty,
      lastMoveFromGame = Map.empty,
      gameCollection = [gid0 \<mapsto> game1],
      db_up = True,
      db_updates = [(gid0, [Set_black_username bob, Set_guest bob, Set_joinable False])],
      intervals = [(Suc (Suc 0), GameSync gid0 alice bob), (Suc (Suc (Suc 0)),
         GameAck gid0 alice bob)],
      next_handle = Suc (Suc (Suc (Suc 0))),
      rooms = (\<lambda>_. {}) (''sockA'' := {''alicesockA5f1d7f3e8b0c2a0017a1b2c3'', gid0},
         ''sockB'' := {''bobsockB5f1d7f3e8b0c2a0017a1b2c3'', gid0}),
      emitted = emitted opened_memory @ [(Room ''alicesockA5f1d7f3e8b0c2a0017a1b2c3'',
         UpdateGame (Some game1)), (Room ''sockB'', GameJoined game1 False), (Room ''sockA'',
         GamesList [] [\<lparr>e_host = Str ''alice vs bob'', e_timeControl = ''5+0'',
         e_gameId = gid0\<rparr>]), (Room ''sockB'',
         GamesList [] [\<lparr>e_host = Str ''alice vs bob'', e_timeControl = ''5+0'',
         e_gameId = gid0\<rparr>])],
      console = [],
      unhandled = []\<rparr>"

definition first_move_memory :: server where
  "first_move_memory =
     \<lparr>users = [''sockA'' \<mapsto> alice, ''sockB'' \<mapsto> bob],
      sockets = [(''alice'', ''sockA''), (''bob'', ''sockB'')],
      timers = [''alice5f1d7f3e8b0c2a0017a1b2c3'' \<mapsto> \<lparr>loop = None,
         time = Some 300\<rparr>, ''bob5f1d7f3e8b0c2a0017a1b2c3'' \<mapsto> \<lparr>loop = None,
         time = Some 300\<rparr>],
      timesync = [gid0 \<mapsto> \<lparr>mainLoop = Suc (Suc 0),
         lastTimeSync = [''alice'' \<mapsto> 1000, ''bob'' \<mapsto> 2000],
         ackLoop = Suc (Suc (Suc 0))\<rparr>],
      currentGameId = [''alice'' \<mapsto> gid0, ''bob'' \<mapsto> gid0],
      joinableGames = [],
      watchableGames = [\<lparr>e_host = Str ''alice vs bob'', e_timeControl = ''5+0'',
         e_gameId = gid0\<rparr>],
      playerReceivedLastmove = [''bob5f1d7f3e8b0c2a0017a1b2c3'' \<mapsto> False,
         ''alice5f1d7f3e8b0c2a0017a1b2c3'' \<mapsto> False],
      lastMoveFromGame = [gid0 \<mapsto> \<lparr>m_username = alice, m_gameId = gid0,
         m_fen = [], m_move = ''e4''\<rparr>],
      gameCollection = [gid0 \<mapsto> game2],
      db_up = True,
      db_updates = db_updates seated_memory @ [(gid0,
         [Set_fen ''rnbqkbnr/pppppppp/8/8/4P3/8/PPPP1PPP/RNBQKBNR b KQkq e3 0 1'',
         Set_lastMove ''e4'', Set_pgn ''1. e4'', Set_moves [''e4'']])],
      intervals = [(Suc (Suc 0), GameSync gid0 alice bob), (Suc (Suc (Suc 0)),
         GameAck gid0 alice bob)],
      next_handle = Suc (Suc (Suc (Suc 0))),
      rooms = (\<lambda>_. {}) (''sockA'' := {''alicesockA5f1d7f3e8b0c2a0017a1b2c3'', gid0},
         ''sockB'' := {''bobsockB5f1d7f3e8b0c2a0017a1b2c3'', gid0}),
      emitted = emitted seated_memory @ [(Room gid0, Moved (Some \<lparr>m_username = alice,
         m_gameId = gid0, m_fen = [], m_move = ''e4''\<rparr>)),
         (Room ''bobsockB5f1d7f3e8b0c2a0017a1b2c3'', UpdateGame (Some game2)),
         (Room ''alicesockA5f1d7f3e8b0c2a0017a1b2c3'', UpdateGame (Some game2))],
      console = [],
      unhandled = []\<rparr>"

definition reply_memory :: server where
  "reply_memory =
     \<lparr>users = [''sockA'' \<mapsto> alice, ''sockB'' \<mapsto> bob],
      sockets = [(''alice'', ''sockA''), (''bob'', ''sockB'')],
      timers = [''bob5f1d7f3e8b0c2a0017a1b2c3'' \<mapsto> \<lparr>loop = None,
         time = Some 300\<rparr>,
         ''alice5f1d7f3e8b0c2a0017a1b2c3'' \<mapsto> \<lparr>loop = Some (Suc (Suc (Suc (Suc 0)))),
         time = Some 300\<rparr>],
      timesync = [gid0 \<mapsto> \<lparr>mainLoop = Suc (Suc 0),
         lastTimeSync = [''alice'' \<mapsto> 1000, ''bob'' \<mapsto> 2000],
         ackLoop = Suc (Suc (Suc 0))\<rparr>],
      currentGameId = [''alice'' \<mapsto> gid0, ''bob'' \<mapsto> gid0],
      joinableGames = [],
      watchableGames = [\<lparr>e_host = Str ''alice vs bob'', e_timeControl = ''5+0'',
         e_gameId = gid0\<rparr>],
      playerReceivedLastmove = [''bob5f1d7f3e8b0c2a0017a1b2c3'' \<mapsto> False,
         ''alice5f1d7f3e8b0c2a0017a1b2c3'' \<mapsto> False],
      lastMoveFromGame = [gid0 \<mapsto> \<lparr>m_username = bob, m_gameId = gid0,
         m_fen = [], m_move = ''e5''\<rparr>],
      gameCollection = [gid0 \<mapsto> game3],
      db_up = True,
      db_updates = db_updates first_move_memory @ [(gid0,
         [Set_fen ''rnbqkbnr/pppp1ppp/8/4p3/4P3/8/PPPP1PPP/RNBQKBNR w KQkq e6 0 2'',
         Set_lastMove ''e5'', Set_pgn ''1. e4 e5'', Set_moves [''e4'', ''e5'']]), (gid0,
         [Set_started True])],
      intervals = [(Suc (Suc 0), GameSync gid0 alice bob), (Suc (Suc (Suc 0)),
         GameAck gid0 alice bob), (Suc (Suc (Suc (Suc 0))), Tick gid0 bob alice)],
      next_handle = Suc (Suc (Suc (Suc (Suc 0)))),
      rooms = (\<lambda>_. {}) (''sockA'' := {''alicesockA5f1d7f3e8b0c2a0017a1b2c3'', gid0},
         ''sockB'' := {''bobsockB5f1d7f3e8b0c2a0017a1b2c3'', gid0}),
      emitted = emitted first_move_memory @ [(Room gid0, Moved (Some \<lparr>m_username = bob,
         m_gameId = gid0, m_fen = [], m_move = ''e5''\<rparr>)),
         (Room ''bobsockB5f1d7f3e8b0c2a0017a1b2c3'', UpdateGame (Some game3)),
         (Room ''alicesockA5f1d7f3e8b0c2a0017a1b2c3'', UpdateGame (Some game3))],
      console = [],
      unhandled = []\<rparr>"


text \<open>
  Further stages of the run: a third user announces the name carol once the game is seated; bob
  sends the reply a second time; bob resigns after the reply; alice's clock runs for
  300 ticks after bob's reply.
\<close>

definition carol :: jval where
  "carol = Str ''carol''"


definition repeated :: server where
  "repeated = handle kings_pawn (Move ''sockB'' (sends bob ''e5'')) reply"

definition resigned :: server where
  "resigned = handle kings_pawn (Resign ''sockB'') reply"

definition flagfall :: server where
  "flagfall = ((fire 4 3000) ^^ 300) reply"

text \<open>
  One socket announces alice and then bob. Another server sees one socket announce the
  number 7 as its name.
\<close>

definition renamed :: server where
  "renamed = handle kings_pawn (Username_ev ''sockA'' bob [])
               (handle kings_pawn (Username_ev ''sockA'' alice []) boot)"

definition numbered :: server where
  "numbered = handle kings_pawn (Username_ev ''sockN'' (Num 7) []) boot"

text \<open>The lobby listing that names the one open 5+0 game, hosted by \<open>u\<close>.\<close>

definition own_listing :: "jval \<Rightarrow> message" where
  "own_listing u = GamesList [\<lparr>e_host = u, e_timeControl = ''5+0'', e_gameId = gid0\<rparr>] []"

text \<open>
  The payload of alice's 1. e4 with another \<open>fen\<close> field: same user name, game id and
  move.
\<close>

definition relabelled :: movedata where
  "relabelled = (sends alice ''e4'')\<lparr>m_fen := ''8/8/8/8/8/8/8/8 w - - 0 1''\<rparr>"


section \<open>Proofs\<close>

lemmas model_defs = lookup_def max0_def decrement_def expired_def TIMESYNC_TIMEOUT_def seconds_def
  key_def userRoom_def user_of_def socket_of_def setInterval_def clearInterval_def emit_def
  join_room_def leave_room_def createGame_def getGame_def updateGame_def gamesList_for_def
  broadcast_gamesList_def stop_timer_def remove_from_lobby_def stop_player_def stop_timesync_def
  finish_updates_def gameOver_def ontime_def tick_def host_sync_def gameTimeSync_def
  userTimeSync_def stale_def abandonment_def host_ack_def game_ack_def rejected_def fire_def
  logged_def answered_def register_def stored_result_def replay_lastmove_def reconnect_def
  username_body_def on_username_def disconnect_body_def on_disconnect_def getGames_body_def
  on_getGames_def leave_previous_def enter_game_def fresh_game_def host_timesync_def
  list_joinable_def newGame_body_def on_newGame_def is_watcher_def game_timesync_def
  take_seat_def watchable_entry_def list_watchable_def show_finished_def joinGame_body_def
  on_joinGame_def orientation_of_def opponent_of_def start_timer_def switch_clocks_def
  draw_kind_def result_of_def move_updates_def record_move_def notify_players_def move_body_def
  on_move_def resignation_def resign_body_def on_resign_def syncAck_body_def on_syncAck_def
  moveAck_body_def on_moveAck_def updatedShapes_body_def on_updatedShapes_def boot_def

lemmas example_defs = start_position_def after_e4_def after_e5_def after_Nf3_def
  kings_pawn_play_def kings_pawn_def gid0_def alice_def bob_def sends_def

subsection \<open>What every step keeps\<close>

text \<open>
  No handler body and no interval callback touches the console or the list of unhandled
  rejections, each only appends to the emitted messages and to the updates sent to the
  database, and none sets a started flag back. The lemmas follow the call structure of
  the handlers.
\<close>

lemma keeps_refl: "keeps st st"
  by (simp add: keeps_def)

lemma keeps_same:
  "console st' = console st \<Longrightarrow> unhandled st' = unhandled st \<Longrightarrow> emitted st' = emitted st \<Longrightarrow>
   db_updates st' = db_updates st \<Longrightarrow> gameCollection st' = gameCollection st \<Longrightarrow>
   keeps st0 st \<Longrightarrow> keeps st0 st'"
  unfolding keeps_def by auto

lemma keeps_emit: "keeps st0 st \<Longrightarrow> keeps st0 (emit tg m st)"
  unfolding keeps_def emit_def by auto

lemma keeps_broadcast: "keeps st0 st \<Longrightarrow> keeps st0 (broadcast_gamesList st)"
  unfolding keeps_def broadcast_gamesList_def by auto

lemma keeps_remove: "keeps st0 st \<Longrightarrow> keeps st0 (remove_from_lobby gameId st)"
  by (erule keeps_same[rotated -1]) (simp_all add: remove_from_lobby_def)

lemma keeps_clearInterval: "keeps st0 st \<Longrightarrow> keeps st0 (clearInterval h st)"
  by (erule keeps_same[rotated -1]) (simp_all add: clearInterval_def)

lemma keeps_setInterval: "setInterval cb st = (h, st') \<Longrightarrow> keeps st0 st \<Longrightarrow> keeps st0 st'"
  by (erule keeps_same[rotated -1]) (auto simp: setInterval_def)

lemma keeps_join_room: "keeps st0 st \<Longrightarrow> keeps st0 (join_room sid r st)"
  by (erule keeps_same[rotated -1]) (simp_all add: join_room_def)

lemma keeps_leave_room: "keeps st0 st \<Longrightarrow> keeps st0 (leave_room sid r st)"
  by (erule keeps_same[rotated -1]) (simp_all add: leave_room_def)

lemma keeps_stop_timer: "stop_timer k st = Inr st' \<Longrightarrow> keeps st0 st \<Longrightarrow> keeps st0 st'"
  apply (erule keeps_same[rotated -1])
  apply (simp_all add: stop_timer_def clearInterval_def split: option.splits)
  apply fastforce+
  done

lemma keeps_stop_player: "stop_player p gameId st = Inr st' \<Longrightarrow> keeps st0 st \<Longrightarrow> keeps st0 st'"
  by (simp add: stop_player_def split: if_splits) (blast intro: keeps_stop_timer)+

lemma keeps_stop_timesync: "keeps st0 st \<Longrightarrow> keeps st0 (stop_timesync gameId st)"
  by (erule keeps_same[rotated -1]) (simp_all add: stop_timesync_def clearInterval_def split: option.splits)

lemma started_fold:
  "started g \<Longrightarrow> Set_started False \<notin> set us \<Longrightarrow> started (fold apply_upd us g)"
proof (induction us arbitrary: g)
  case Nil
  then show ?case by simp
next
  case (Cons u us)
  from Cons.prems have "started (apply_upd u g)" by (cases u) simp_all
  with Cons show ?case by simp
qed

lemma keeps_updateGame:
  assumes "updateGame gameId us st = Inr (g, st')" and "Set_started False \<notin> set us"
    and "keeps st0 st"
  shows "keeps st0 st'"
proof (cases "gameCollection st gameId")
  case None
  with assms(1) have "st' = st\<lparr>db_updates := db_updates st @ [(gameId, us)]\<rparr>"
    by (auto simp: updateGame_def Let_def split: if_splits)
  with assms(3) show ?thesis unfolding keeps_def by auto
next
  case (Some d)
  with assms(1) have e: "st' = st\<lparr>db_updates := db_updates st @ [(gameId, us)],
      gameCollection := (gameCollection st)(gameId \<mapsto> fold apply_upd us d)\<rparr>"
    by (auto simp: updateGame_def Let_def split: if_splits)
  have "started d \<Longrightarrow> started (fold apply_upd us d)"
    using assms(2) by (simp add: started_fold)
  with assms(3) Some show ?thesis unfolding keeps_def e by auto
qed

lemma keeps_finish:
  "updateGame gameId (finish_updates rd a b) st = Inr (g, st') \<Longrightarrow> keeps st0 st \<Longrightarrow> keeps st0 st'"
  by (erule keeps_updateGame) (simp_all add: finish_updates_def)

lemma keeps_placed:
  "updateGame gameId (move_updates pos mv) st = Inr (g, st') \<Longrightarrow> keeps st0 st \<Longrightarrow> keeps st0 st'"
  by (erule keeps_updateGame) (simp_all add: move_updates_def)

lemma keeps_set_started:
  "updateGame gameId [Set_started True] st = Inr (g, st') \<Longrightarrow> keeps st0 st \<Longrightarrow> keeps st0 st'"
  by (erule keeps_updateGame) simp_all

lemma keeps_seat:
  "updateGame gameId (Set_white_username u # [Set_guest u, Set_joinable False]) st = Inr (g, st') \<Longrightarrow>
   keeps st0 st \<Longrightarrow> keeps st0 st'"
  "updateGame gameId (Set_black_username u # [Set_guest u, Set_joinable False]) st = Inr (g, st') \<Longrightarrow>
   keeps st0 st \<Longrightarrow> keeps st0 st'"
  by (erule keeps_updateGame, simp_all)+

lemma keeps_createGame:
  assumes "createGame g new_id st = Inr (g', st')" and "keeps st0 st"
  shows "keeps st0 st'"
proof -
  from assms(1) have n: "gameCollection st new_id = None"
    and e: "st' = st\<lparr>gameCollection := (gameCollection st)(new_id \<mapsto> g\<lparr>game_id := new_id\<rparr>)\<rparr>"
    by (auto simp: createGame_def Let_def split: if_splits)
  have "map_option started (gameCollection st0 gameId) = Some True \<Longrightarrow> gameId \<noteq> new_id"
    for gameId
    using assms(2) n unfolding keeps_def by force
  with assms(2) show ?thesis unfolding keeps_def e by auto
qed

lemma keeps_gameOver: "keeps st0 st \<Longrightarrow> keeps st0 (snd (gameOver gameId p1 p2 rd st))"
  apply (simp add: gameOver_def Let_def split: sum.splits option.splits prod.splits)
  apply (blast intro: keeps_emit keeps_broadcast keeps_remove keeps_stop_timesync
      keeps_stop_player keeps_finish)
  done

lemma keeps_gameOver': "gameOver gameId p1 p2 rd st = (r, st') \<Longrightarrow> keeps st0 st \<Longrightarrow> keeps st0 st'"
  by (metis keeps_gameOver snd_conv)

lemma keeps_tick: "keeps st0 st \<Longrightarrow> keeps st0 (snd (tick gameId u opp st))"
  apply (simp add: tick_def Let_def split: option.splits)
  apply (intro allI impI conjI keeps_gameOver)
   apply (erule keeps_same[rotated -1]; simp)+
  done

lemma keeps_host_sync: "keeps st0 st \<Longrightarrow> keeps st0 (snd (host_sync gameId u sid st))"
  by (simp add: host_sync_def split: option.splits) (blast intro: keeps_emit)

lemma keeps_gameTimeSync: "keeps st0 st \<Longrightarrow> keeps st0 (snd (gameTimeSync gameId w b st))"
  by (simp add: gameTimeSync_def split: option.splits) (blast intro: keeps_emit)

lemma keeps_userTimeSync: "keeps st0 st \<Longrightarrow> keeps st0 (snd (userTimeSync u w b st))"
  by (simp add: userTimeSync_def Let_def keeps_emit split: option.splits)

lemma keeps_host_ack: "keeps st0 st \<Longrightarrow> keeps st0 (snd (host_ack gameId u now st))"
  by (simp add: host_ack_def split: option.splits)
     (blast intro: keeps_gameOver keeps_broadcast keeps_remove)

lemma keeps_game_ack: "keeps st0 st \<Longrightarrow> keeps st0 (snd (game_ack gameId w b now st))"
  apply (simp add: game_ack_def split: option.splits prod.splits if_splits)
  apply (blast intro: keeps_gameOver keeps_gameOver')
  done

lemma keeps_run_callback: "keeps st0 st \<Longrightarrow> keeps st0 (snd (run_callback cb now st))"
  by (cases cb) (simp_all add: keeps_tick keeps_host_sync keeps_gameTimeSync keeps_host_ack keeps_game_ack)


lemma keeps_start_timer:
  "start_timer gameId u opp st = (r, st') \<Longrightarrow> keeps st0 st \<Longrightarrow> keeps st0 st'"
  apply (erule keeps_same[rotated -1])
  apply (simp_all add: start_timer_def setInterval_def split: option.splits)
  apply fastforce+
  done

lemma keeps_switch_clocks:
  "keeps st0 st \<Longrightarrow> keeps st0 (snd (snd (switch_clocks md g st)))"
  apply (simp add: switch_clocks_def Let_def split: sum.splits option.splits prod.splits)
  apply (blast intro: keeps_stop_timer keeps_start_timer keeps_set_started)
  done

lemma keeps_switch_clocks':
  "switch_clocks md g st = (r, g', st') \<Longrightarrow> keeps st0 st \<Longrightarrow> keeps st0 st'"
  by (metis keeps_switch_clocks snd_conv)

lemma keeps_record_move: "keeps st0 st \<Longrightarrow> keeps st0 (record_move md g st)"
  unfolding record_move_def
  by (rule keeps_emit) (erule keeps_same[rotated -1], simp_all)

lemma keeps_notify_players: "keeps st0 st \<Longrightarrow> keeps st0 (notify_players gameId g g' st)"
  by (simp add: notify_players_def Let_def keeps_emit)

lemma keeps_move_body: "keeps st0 st \<Longrightarrow> keeps st0 (snd (move_body ch md st))"
  apply (simp add: move_body_def Let_def split: sum.splits option.splits prod.splits)
  apply (blast intro: keeps_placed keeps_record_move keeps_switch_clocks' keeps_gameOver
      keeps_notify_players)
  done

lemma keeps_leave_previous: "keeps st0 st \<Longrightarrow> keeps st0 (leave_previous sid u st)"
  by (simp add: leave_previous_def keeps_leave_room split: option.splits)

lemma keeps_enter_game: "keeps st0 st \<Longrightarrow> keeps st0 (enter_game sid u gameId st)"
  unfolding enter_game_def Let_def
  by (rule keeps_same[where st="join_room sid (userRoom u (Str sid) gameId) (join_room sid gameId st)"])
     (simp_all add: keeps_join_room)

lemma keeps_host_timesync: "keeps st0 st \<Longrightarrow> keeps st0 (host_timesync sid u gameId now st)"
  by (erule keeps_same[rotated -1]) (simp_all add: host_timesync_def setInterval_def)

lemma keeps_list_joinable: "keeps st0 st \<Longrightarrow> keeps st0 (list_joinable u g st)"
  by (erule keeps_same[rotated -1]) (simp_all add: list_joinable_def)

lemma keeps_timers_upd: "keeps st0 st \<Longrightarrow> keeps st0 (st\<lparr>timers := t\<rparr>)"
  by (erule keeps_same[rotated -1]) simp_all

lemma keeps_newGame_body:
  "keeps st0 st \<Longrightarrow> keeps st0 (snd (newGame_body ch sid tc heads new_id now st))"
  apply (simp add: newGame_body_def Let_def split: sum.splits option.splits prod.splits)
  apply (blast intro: keeps_createGame keeps_leave_previous keeps_enter_game keeps_emit
      keeps_timers_upd keeps_host_timesync keeps_list_joinable keeps_broadcast)
  done

lemma keeps_game_timesync:
  "game_timesync u gameId g now st = (r, st') \<Longrightarrow> keeps st0 st \<Longrightarrow> keeps st0 st'"
  apply (erule keeps_same[rotated -1])
  apply (simp_all add: game_timesync_def Let_def setInterval_def clearInterval_def split: option.splits)
  apply fastforce+
  done

lemma keeps_take_seat:
  "keeps st0 st \<Longrightarrow> keeps st0 (snd (snd (take_seat gameId u g now st)))"
  apply (simp add: take_seat_def Let_def split: sum.splits option.splits prod.splits)
  apply (blast intro: keeps_seat keeps_emit keeps_timers_upd keeps_game_timesync)
  done

lemma keeps_take_seat':
  "take_seat gameId u g now st = (r, g', st') \<Longrightarrow> keeps st0 st \<Longrightarrow> keeps st0 st'"
  by (metis keeps_take_seat snd_conv)

lemma keeps_list_watchable: "keeps st0 st \<Longrightarrow> keeps st0 (list_watchable gameId g st)"
  by (erule keeps_same[rotated -1]) (simp_all add: list_watchable_def Let_def)

lemma keeps_show_finished: "keeps st0 st \<Longrightarrow> keeps st0 (show_finished sid u gameId g st)"
  by (simp add: show_finished_def keeps_emit)

lemma keeps_joinGame_body:
  "keeps st0 st \<Longrightarrow> keeps st0 (snd (joinGame_body sid gameId now st))"
  apply (simp add: joinGame_body_def Let_def split: sum.splits option.splits prod.splits if_splits)
  apply (blast intro: keeps_take_seat' keeps_leave_previous keeps_enter_game keeps_emit
      keeps_list_watchable keeps_show_finished keeps_broadcast)
  done

lemma keeps_resign_body: "keeps st0 st \<Longrightarrow> keeps st0 (snd (resign_body sid st))"
  by (simp add: resign_body_def Let_def keeps_gameOver split: sum.splits option.splits)

lemma keeps_syncAck_body: "keeps st0 st \<Longrightarrow> keeps st0 (snd (syncAck_body sid now st))"
  apply (simp add: syncAck_body_def Let_def split: option.splits)
  apply (intro allI impI conjI)
  apply (erule keeps_same[rotated -1]; simp)
  done

lemma keeps_moveAck_body: "keeps st0 st \<Longrightarrow> keeps st0 (snd (moveAck_body sid st))"
  apply (simp add: moveAck_body_def Let_def)
  apply (erule keeps_same[rotated -1]; simp)
  done

lemma keeps_updatedShapes_body: "keeps st0 st \<Longrightarrow> keeps st0 (snd (updatedShapes_body gameId shapes st))"
  by (simp add: updatedShapes_body_def keeps_emit)

lemma keeps_getGames_body: "keeps st0 st \<Longrightarrow> keeps st0 (snd (getGames_body sid st))"
  by (simp add: getGames_body_def keeps_emit)

lemma keeps_register: "keeps st0 st \<Longrightarrow> keeps st0 (register sid name st)"
  by (erule keeps_same[rotated -1]) (simp_all add: register_def)

lemma keeps_userTimeSync':
  "userTimeSync u w b st = (r, st') \<Longrightarrow> keeps st0 st \<Longrightarrow> keeps st0 st'"
  by (metis keeps_userTimeSync snd_conv)

lemma keeps_replay_lastmove: "keeps st0 st \<Longrightarrow> keeps st0 (replay_lastmove u gameId g st)"
  by (simp add: replay_lastmove_def Let_def keeps_emit)

lemma keeps_reconnect: "keeps st0 st \<Longrightarrow> keeps st0 (snd (reconnect sid u gameId st))"
  apply (simp add: reconnect_def Let_def getGame_def split: sum.splits option.splits prod.splits if_splits)
  apply (blast intro: keeps_join_room keeps_emit keeps_userTimeSync' keeps_replay_lastmove)
  done

lemma keeps_username_body: "keeps st0 st \<Longrightarrow> keeps st0 (snd (username_body sid du rnd st))"
  by (simp add: username_body_def Let_def keeps_reconnect keeps_register keeps_emit
      split: option.splits)

lemma keeps_disconnect_body: "keeps st0 st \<Longrightarrow> keeps st0 (snd (disconnect_body sid st))"
  apply (simp add: disconnect_body_def Let_def)
  apply (erule keeps_same[rotated -1]; simp)
  done

lemma keeps_body_of: "keeps st0 st \<Longrightarrow> keeps st0 (snd (body_of ch ev st))"
  by (cases ev)
     (simp_all add: keeps_username_body keeps_disconnect_body keeps_getGames_body
        keeps_newGame_body keeps_joinGame_body keeps_move_body keeps_resign_body
        keeps_syncAck_body keeps_moveAck_body keeps_updatedShapes_body)
subsection \<open>What the steps after a position update keep\<close>

text \<open>
  Stopping and starting timers, gameOver and the notifications to the players leave the
  last move on record and, of the stored games, every part that their own updates do not
  name.
\<close>

lemma und_refl: "undisturbed view W st st"
  by (simp add: undisturbed_def)

lemma und_same:
  "lastMoveFromGame st' = lastMoveFromGame st \<Longrightarrow> gameCollection st' = gameCollection st \<Longrightarrow>
   db_updates st' = db_updates st \<Longrightarrow> undisturbed view W st0 st \<Longrightarrow> undisturbed view W st0 st'"
  unfolding undisturbed_def by simp

lemma und_emit: "undisturbed view W st0 st \<Longrightarrow> undisturbed view W st0 (emit tg m st)"
  by (erule und_same[rotated -1]) (simp_all add: emit_def)

lemma und_broadcast: "undisturbed view W st0 st \<Longrightarrow> undisturbed view W st0 (broadcast_gamesList st)"
  by (erule und_same[rotated -1]) (simp_all add: broadcast_gamesList_def)

lemma und_remove: "undisturbed view W st0 st \<Longrightarrow> undisturbed view W st0 (remove_from_lobby gameId st)"
  by (erule und_same[rotated -1]) (simp_all add: remove_from_lobby_def)

lemma und_stop_timer:
  "stop_timer k st = Inr st' \<Longrightarrow> undisturbed view W st0 st \<Longrightarrow> undisturbed view W st0 st'"
  apply (erule und_same[rotated -1])
  apply (simp_all add: stop_timer_def clearInterval_def split: option.splits)
  apply fastforce+
  done

lemma und_stop_player:
  "stop_player p gameId st = Inr st' \<Longrightarrow> undisturbed view W st0 st \<Longrightarrow> undisturbed view W st0 st'"
  by (simp add: stop_player_def split: if_splits) (blast intro: und_stop_timer)+

lemma und_stop_timesync:
  "undisturbed view W st0 st \<Longrightarrow> undisturbed view W st0 (stop_timesync gameId st)"
  by (erule und_same[rotated -1]) (simp_all add: stop_timesync_def clearInterval_def split: option.splits)

lemma und_start_timer:
  "start_timer gameId u opp st = (r, st') \<Longrightarrow> undisturbed view W st0 st \<Longrightarrow> undisturbed view W st0 st'"
  apply (erule und_same[rotated -1])
  apply (simp_all add: start_timer_def setInterval_def split: option.splits)
  apply fastforce+
  done

lemma und_notify_players:
  "undisturbed view W st0 st \<Longrightarrow> undisturbed view W st0 (notify_players gameId g g' st)"
  by (simp add: notify_players_def Let_def und_emit)

lemma und_updateGame:
  assumes "updateGame gameId us st = Inr (g, st')" and "\<not> W us"
    and "\<And>d. view (fold apply_upd us d) = view d"
    and "undisturbed view W st0 st"
  shows "undisturbed view W st0 st'"
proof (cases "gameCollection st gameId")
  case None
  with assms(1) have "st' = st\<lparr>db_updates := db_updates st @ [(gameId, us)]\<rparr>"
    by (auto simp: updateGame_def Let_def split: if_splits)
  with assms(2,4) show ?thesis unfolding undisturbed_def by simp
next
  case (Some d)
  with assms(1) have e: "st' = st\<lparr>db_updates := db_updates st @ [(gameId, us)],
      gameCollection := (gameCollection st)(gameId \<mapsto> fold apply_upd us d)\<rparr>"
    by (auto simp: updateGame_def Let_def split: if_splits)
  from assms(4) Some have "map_option view (gameCollection st0 gameId) = Some (view d)"
    unfolding undisturbed_def by (metis option.simps(9))
  with assms(2,3,4) show ?thesis unfolding undisturbed_def e by auto
qed

lemma und_gameOver:
  assumes v: "\<And>rd a b d. view (fold apply_upd (finish_updates rd a b) d) = view d"
    and w: "\<And>rd a b. \<not> W (finish_updates rd a b)"
  shows "undisturbed view W st0 st \<Longrightarrow> undisturbed view W st0 (snd (gameOver gameId p1 p2 rd st))"
proof -
  have fin: "\<And>a b g st st'. updateGame gameId (finish_updates rd a b) st = Inr (g, st') \<Longrightarrow>
      undisturbed view W st0 st \<Longrightarrow> undisturbed view W st0 st'"
    by (erule und_updateGame) (simp_all add: v w)
  show "undisturbed view W st0 st \<Longrightarrow> undisturbed view W st0 (snd (gameOver gameId p1 p2 rd st))"
    apply (simp add: gameOver_def Let_def split: sum.splits option.splits prod.splits)
    apply (blast intro: und_emit und_broadcast und_remove und_stop_timesync und_stop_player fin)
    done
qed

lemma und_switch_clocks:
  assumes v: "\<And>d. view (d\<lparr>started := True\<rparr>) = view d" and w: "\<not> W [Set_started True]"
  shows "undisturbed view W st0 st \<Longrightarrow> undisturbed view W st0 (snd (snd (switch_clocks md g st)))"
proof -
  have st: "\<And>g st st'. updateGame (m_gameId md) [Set_started True] st = Inr (g, st') \<Longrightarrow>
      undisturbed view W st0 st \<Longrightarrow> undisturbed view W st0 st'"
    by (erule und_updateGame) (simp_all add: v w)
  show "undisturbed view W st0 st \<Longrightarrow> undisturbed view W st0 (snd (snd (switch_clocks md g st)))"
    apply (simp add: switch_clocks_def Let_def split: sum.splits option.splits prod.splits)
    apply (blast intro: und_stop_timer und_start_timer st)
    done
qed

subsection \<open>The move handler never reads the users object\<close>

lemma users_prims:
  "emit tg m (st\<lparr>users := us\<rparr>) = (emit tg m st)\<lparr>users := us\<rparr>"
  "clearInterval h (st\<lparr>users := us\<rparr>) = (clearInterval h st)\<lparr>users := us\<rparr>"
  "remove_from_lobby gameId (st\<lparr>users := us\<rparr>) = (remove_from_lobby gameId st)\<lparr>users := us\<rparr>"
  "broadcast_gamesList (st\<lparr>users := us\<rparr>) = (broadcast_gamesList st)\<lparr>users := us\<rparr>"
  "stop_timesync gameId (st\<lparr>users := us\<rparr>) = (stop_timesync gameId st)\<lparr>users := us\<rparr>"
  "record_move md g (st\<lparr>users := us\<rparr>) = (record_move md g st)\<lparr>users := us\<rparr>"
  "notify_players gameId g g' (st\<lparr>users := us\<rparr>) = (notify_players gameId g g' st)\<lparr>users := us\<rparr>"
  "getGame gameId (st\<lparr>users := us\<rparr>) = getGame gameId st"
  by (simp_all add: emit_def clearInterval_def remove_from_lobby_def broadcast_gamesList_def
      gamesList_for_def stop_timesync_def record_move_def notify_players_def socket_of_def
      getGame_def Let_def split: option.splits)

lemma users_stop_timer:
  "stop_timer k (st\<lparr>users := us\<rparr>) = map_sum (\<lambda>e. e) (\<lambda>s. s\<lparr>users := us\<rparr>) (stop_timer k st)"
  by (simp add: stop_timer_def clearInterval_def split: option.splits)

lemma users_stop_player:
  "stop_player p gameId (st\<lparr>users := us\<rparr>) =
     map_sum (\<lambda>e. e) (\<lambda>s. s\<lparr>users := us\<rparr>) (stop_player p gameId st)"
  by (simp add: stop_player_def users_stop_timer)

lemma users_start_timer:
  "start_timer gameId u opp (st\<lparr>users := us\<rparr>) =
     map_prod (\<lambda>e. e) (\<lambda>s. s\<lparr>users := us\<rparr>) (start_timer gameId u opp st)"
  by (simp add: start_timer_def setInterval_def split: option.splits)

lemma users_updateGame:
  "updateGame gameId ups (st\<lparr>users := us\<rparr>) =
     map_sum (\<lambda>e. e) (map_prod (\<lambda>g. g) (\<lambda>s. s\<lparr>users := us\<rparr>)) (updateGame gameId ups st)"
  by (simp add: updateGame_def Let_def split: option.splits)

lemma users_gameOver:
  "gameOver gameId p1 p2 rd (st\<lparr>users := us\<rparr>) =
     map_prod (\<lambda>e. e) (\<lambda>s. s\<lparr>users := us\<rparr>) (gameOver gameId p1 p2 rd st)"
  by (simp add: gameOver_def Let_def users_prims users_stop_player users_updateGame
      split: sum.splits option.splits prod.splits)

lemma users_switch_clocks:
  "switch_clocks md g (st\<lparr>users := us\<rparr>) =
     map_prod (\<lambda>e. e) (map_prod (\<lambda>g. g) (\<lambda>s. s\<lparr>users := us\<rparr>)) (switch_clocks md g st)"
  by (auto simp: switch_clocks_def Let_def users_stop_timer users_start_timer users_updateGame
      split: sum.splits option.splits prod.splits)

lemma users_move_body:
  "move_body ch md (st\<lparr>users := us\<rparr>) =
     map_prod (\<lambda>e. e) (\<lambda>s. s\<lparr>users := us\<rparr>) (move_body ch md st)"
  by (auto simp: move_body_def Let_def users_prims users_switch_clocks users_gameOver users_updateGame
      split: sum.splits option.splits prod.splits)

lemma users_on_move:
  "on_move ch sid md (st\<lparr>users := us\<rparr>) = (on_move ch sid' md st)\<lparr>users := us\<rparr>"
  by (simp add: on_move_def users_move_body logged_def split: prod.splits option.splits)

subsection \<open>The move handler on its normal path\<close>

lemma updateGame_found:
  "db_up st \<Longrightarrow> gameCollection st gameId = Some g \<Longrightarrow>
   updateGame gameId us st =
     Inr (Some (fold apply_upd us g),
          st\<lparr>db_updates := db_updates st @ [(gameId, us)],
             gameCollection := (gameCollection st)(gameId \<mapsto> fold apply_upd us g)\<rparr>)"
  by (simp add: updateGame_def Let_def)

lemma stop_timer_found:
  "timers st k = Some tm \<Longrightarrow>
   stop_timer k st =
     Inr (case loop tm of None \<Rightarrow> st
          | Some h \<Rightarrow> st\<lparr>intervals := filter (\<lambda>p. fst p \<noteq> h) (intervals st),
                          timers := (timers st)(k \<mapsto> tm\<lparr>loop := None\<rparr>)\<rparr>)"
  by (simp add: stop_timer_def clearInterval_def split: option.splits)



lemma stop_timer_pause: "timers st k = Some tm \<Longrightarrow> stop_timer k st = Inr (pause k st)"
  by (simp add: stop_timer_def pause_def clearInterval_def split: option.splits)




lemma moved_game:
  "username (white (fold apply_upd (move_updates pos mv) g)) = username (white g)"
  "username (black (fold apply_upd (move_updates pos mv) g)) = username (black g)"
  "started (fold apply_upd (move_updates pos mv) g) = started g"
  "opponent_of u (fold apply_upd (move_updates pos mv) g) = opponent_of u g"
  by (simp_all add: move_updates_def opponent_of_def)

lemma record_move_fields:
  "db_up (record_move md g st) = db_up st"
  "gameCollection (record_move md g st) = gameCollection st"
  "timers (record_move md g st) = timers st"
  "intervals (record_move md g st) = intervals st"
  "next_handle (record_move md g st) = next_handle st"
  "db_updates (record_move md g st) = db_updates st"
  "sockets (record_move md g st) = sockets st"
  "console (record_move md g st) = console st"
  "emitted (record_move md g st) = emitted st @ [(Room (m_gameId md), Moved (Some md))]"
  by (simp_all add: record_move_def emit_def)




subsection \<open>A move that chess.js does not throw on\<close>

text \<open>
  Whatever the sender's name: once the database is up, the game is stored unfinished and
  chess.js returns a position, that position is stored, and the payload is recorded as the
  last move and broadcast, also when the clock switch that follows throws.
\<close>

lemma logged_fields:
  "lastMoveFromGame (logged r) = lastMoveFromGame (snd r)"
  "gameCollection (logged r) = gameCollection (snd r)"
  "emitted (logged r) = emitted (snd r)"
  "db_updates (logged r) = db_updates (snd r)"
  by (simp_all add: logged_def split: prod.splits option.splits)

lemma placement_kept:
  "placement (fold apply_upd (finish_updates rd a b) d) = placement d"
  "placement (d\<lparr>started := True\<rparr>) = placement d"
  "placement (fold apply_upd (move_updates pos mv) d) = (p_fen pos, Some mv, p_pgn pos, p_history pos)"
  by (simp_all add: placement_def finish_updates_def move_updates_def)

lemma move_tail:
  assumes "db_up st" and "gameCollection st (m_gameId md) = Some g" and "\<not> finished g"
    and "play ch (pgn g) (m_move md) = Inr pos"
  shows "undisturbed placement (\<lambda>us. False)
           (record_move md (fold apply_upd (move_updates pos (m_move md)) g)
              (st\<lparr>db_updates := db_updates st @ [(m_gameId md, move_updates pos (m_move md))],
                 gameCollection := (gameCollection st)(m_gameId md \<mapsto>
                   fold apply_upd (move_updates pos (m_move md)) g)\<rparr>))
           (snd (move_body ch md st)) \<and>
         keeps
           (record_move md (fold apply_upd (move_updates pos (m_move md)) g)
              (st\<lparr>db_updates := db_updates st @ [(m_gameId md, move_updates pos (m_move md))],
                 gameCollection := (gameCollection st)(m_gameId md \<mapsto>
                   fold apply_upd (move_updates pos (m_move md)) g)\<rparr>))
           (snd (move_body ch md st))"
proof -
  let ?gameId = "m_gameId md"
  let ?g1 = "fold apply_upd (move_updates pos (m_move md)) g"
  let ?st1 = "st\<lparr>db_updates := db_updates st @ [(?gameId, move_updates pos (m_move md))],
                gameCollection := (gameCollection st)(?gameId \<mapsto> ?g1)\<rparr>"
  let ?st2 = "record_move md ?g1 ?st1"
  have u1: "updateGame ?gameId (move_updates pos (m_move md)) st = Inr (Some ?g1, ?st1)"
    using assms(1,2) by (rule updateGame_found)
  obtain r gv s3 where sw: "switch_clocks md ?g1 ?st2 = (r, gv, s3)"
    by (cases "switch_clocks md ?g1 ?st2") auto
  have p3: "undisturbed placement (\<lambda>us. False) ?st2 s3"
    using und_switch_clocks[where view=placement and W="\<lambda>us. False" and ?st0.0="?st2" and st="?st2"
        and md=md and g="?g1"] sw
    by (simp add: placement_kept und_refl)
  have k3: "keeps ?st2 s3"
    using keeps_switch_clocks'[OF sw keeps_refl] .
  have c: "snd (move_body ch md st) = s3 \<or>
           snd (move_body ch md st) =
             snd (gameOver ?gameId (m_username md) (opponent_of (m_username md) ?g1)
                    (result_of pos (m_username md)) s3) \<or>
           snd (move_body ch md st) = notify_players ?gameId ?g1 gv s3"
    by (simp add: move_body_def Let_def getGame_def assms u1 sw split: option.splits)
  have pg: "undisturbed placement (\<lambda>us. False) ?st2
              (snd (gameOver ?gameId (m_username md) (opponent_of (m_username md) ?g1)
                    (result_of pos (m_username md)) s3))"
    by (rule und_gameOver[OF _ _ p3]) (simp_all add: placement_kept)
  have kg: "keeps ?st2
              (snd (gameOver ?gameId (m_username md) (opponent_of (m_username md) ?g1)
                    (result_of pos (m_username md)) s3))"
    by (rule keeps_gameOver[OF k3])
  from c p3 k3 pg kg und_notify_players[OF p3] keeps_notify_players[OF k3]
  show ?thesis by metis
qed

lemma move_accepted:
  assumes "db_up st" and "gameCollection st (m_gameId md) = Some g" and "\<not> finished g"
    and "play ch (pgn g) (m_move md) = Inr pos"
  shows "map_option placement (gameCollection (on_move ch sid md st) (m_gameId md)) =
           Some (p_fen pos, Some (m_move md), p_pgn pos, p_history pos)"
    and "lastMoveFromGame (on_move ch sid md st) (m_gameId md) = Some md"
    and "\<exists>es. emitted (on_move ch sid md st) = emitted st @ (Room (m_gameId md), Moved (Some md)) # es"
    and "\<exists>ws. db_updates (on_move ch sid md st) =
                db_updates st @ (m_gameId md, move_updates pos (m_move md)) # ws"
proof -
  let ?gameId = "m_gameId md"
  let ?g1 = "fold apply_upd (move_updates pos (m_move md)) g"
  let ?st1 = "st\<lparr>db_updates := db_updates st @ [(?gameId, move_updates pos (m_move md))],
                gameCollection := (gameCollection st)(?gameId \<mapsto> ?g1)\<rparr>"
  let ?st2 = "record_move md ?g1 ?st1"
  let ?T = "snd (move_body ch md st)"
  from move_tail[OF assms] have u: "undisturbed placement (\<lambda>us. False) ?st2 ?T"
    and k: "keeps ?st2 ?T" by simp_all
  from u have "map_option placement (gameCollection ?T ?gameId) =
      map_option placement (gameCollection ?st2 ?gameId)"
    and l: "lastMoveFromGame ?T = lastMoveFromGame ?st2"
    unfolding undisturbed_def by simp_all
  then show "map_option placement (gameCollection (on_move ch sid md st) ?gameId) =
           Some (p_fen pos, Some (m_move md), p_pgn pos, p_history pos)"
    by (simp add: on_move_def logged_fields record_move_fields placement_kept)
  from l show "lastMoveFromGame (on_move ch sid md st) ?gameId = Some md"
    by (simp add: on_move_def logged_fields record_move_def emit_def)
  from k obtain es ws where "emitted ?T = emitted ?st2 @ es" "db_updates ?T = db_updates ?st2 @ ws"
    unfolding keeps_def by blast
  then show "\<exists>es. emitted (on_move ch sid md st) = emitted st @ (Room ?gameId, Moved (Some md)) # es"
    and "\<exists>ws. db_updates (on_move ch sid md st) =
                db_updates st @ (?gameId, move_updates pos (m_move md)) # ws"
    by (simp_all add: on_move_def logged_fields record_move_fields)
qed

subsection \<open>gameOver and the decrement loop on their normal paths\<close>

lemma stop_player_halt:
  "timers st (key p gameId) = Some tm \<Longrightarrow> stop_player p gameId st = Inr (halt p gameId st)"
  by (simp add: stop_player_def halt_def stop_timer_pause)

lemma pause_timers_time:
  "map_option time (timers (pause k st) k') = map_option time (timers st k')"
  by (simp add: pause_def split: option.splits)

lemma halt_fields:
  "db_up (halt p gameId st) = db_up st" "gameCollection (halt p gameId st) = gameCollection st"
  "db_updates (halt p gameId st) = db_updates st" "emitted (halt p gameId st) = emitted st"
  "sockets (halt p gameId st) = sockets st" "timesync (halt p gameId st) = timesync st"
  "map_option time (timers (halt p gameId st) k) = map_option time (timers st k)"
  by (simp_all add: halt_def pause_def split: option.splits)

lemma halt_timers_other:
  "timers st k = Some tm \<Longrightarrow> \<exists>tm'. timers (halt p gameId st) k = Some tm'"
  using halt_fields(7)[of p gameId st k] by (cases "timers (halt p gameId st) k") simp_all

lemma pause_handles: "fst ` set (intervals (pause k st)) \<subseteq> fst ` set (intervals st)"
  by (auto simp: pause_def split: option.splits)

lemma halt_handles: "fst ` set (intervals (halt p gameId st)) \<subseteq> fst ` set (intervals st)"
  using pause_handles by (simp add: halt_def)

lemma pause_clears:
  "timers st k = Some tm \<Longrightarrow> loop tm = Some h \<Longrightarrow> h \<notin> fst ` set (intervals (pause k st))"
  by (auto simp: pause_def)

lemma pause_keeps_entry:
  "k' \<noteq> k \<Longrightarrow> timers (pause k' st) k = timers st k"
  by (simp add: pause_def split: option.splits)

lemma halt_halt_clears:
  assumes "timers st (key p2 gameId) = Some tm" and "loop tm = Some h" and "truthy p2"
  shows "h \<notin> fst ` set (intervals (halt p2 gameId (halt p1 gameId st)))"
proof (cases "truthy p1 \<and> key p1 gameId = key p2 gameId")
  case True
  then have "h \<notin> fst ` set (intervals (halt p1 gameId st))"
    using assms pause_clears[of st "key p2 gameId" tm h] by (simp add: halt_def)
  then show ?thesis using halt_handles[of p2 gameId "halt p1 gameId st"] by blast
next
  case False
  then have "timers (halt p1 gameId st) (key p2 gameId) = Some tm"
    using assms(1) by (auto simp: halt_def pause_keeps_entry)
  then show ?thesis using assms(2,3) pause_clears by (simp add: halt_def)
qed

lemma stop_timesync_fields:
  "db_up (stop_timesync gameId st) = db_up st"
  "gameCollection (stop_timesync gameId st) = gameCollection st"
  "db_updates (stop_timesync gameId st) = db_updates st"
  "emitted (stop_timesync gameId st) = emitted st"
  "sockets (stop_timesync gameId st) = sockets st"
  "timers (stop_timesync gameId st) = timers st"
  "timesync (stop_timesync gameId st) gameId = None"
  by (simp_all add: stop_timesync_def clearInterval_def split: option.splits)

lemma stop_timesync_handles:
  "fst ` set (intervals (stop_timesync gameId st)) \<subseteq> fst ` set (intervals st)"
  by (auto simp: stop_timesync_def clearInterval_def split: option.splits)

lemma gameOver_normal:
  assumes "db_up st" and "gameCollection st gameId = Some g" and "\<not> finished g"
    and "timers st (key (username (white g)) gameId) = Some tw"
    and "timers st (key (username (black g)) gameId) = Some tb"
    and "timers st (key p1 gameId) = Some t1" and "timers st (key p2 gameId) = Some t2"
  shows "gameOver gameId p1 p2 rd st = (None, finalized gameId p1 p2 rd g tw tb st)"
proof -
  let ?st1 = "emit (Room gameId) (GameOver rd) st"
  have s1: "stop_player p1 gameId ?st1 = Inr (halt p1 gameId ?st1)"
    by (rule stop_player_halt[where tm=t1]) (simp add: emit_def assms)
  have "timers ?st1 (key p2 gameId) = Some t2" by (simp add: emit_def assms)
  from halt_timers_other[OF this, of p1 gameId] obtain t2' where
    "timers (halt p1 gameId ?st1) (key p2 gameId) = Some t2'" by blast
  then have s2: "stop_player p2 gameId (halt p1 gameId ?st1) = Inr (halt p2 gameId (halt p1 gameId ?st1))"
    by (rule stop_player_halt)
  let ?st4 = "stop_timesync gameId (halt p2 gameId (halt p1 gameId ?st1))"
  have d: "db_up ?st4" "gameCollection ?st4 gameId = Some g"
    by (simp_all add: stop_timesync_fields halt_fields emit_def assms)
  show ?thesis
    by (simp add: gameOver_def getGame_def assms s1 s2 updateGame_found[OF d] finalized_def Let_def)
qed


lemma gameOver_messages_broadcast:
  "gameOver_messages (map (\<lambda>(u, socketId). (Room socketId, gamesList_for st' (Str u))) xs) = []"
  by (induction xs) (auto simp: gameOver_messages_def gamesList_for_def)

lemma finalized_emitted:
  "emitted (finalized gameId p1 p2 rd g tw tb st) =
     emitted st @ [(Room gameId, GameOver rd)] @
     map (\<lambda>(u, socketId). (Room socketId,
            gamesList_for (remove_from_lobby gameId
              ((stop_timesync gameId (halt p2 gameId (halt p1 gameId (emit (Room gameId) (GameOver rd) st))))
                 \<lparr>db_updates := db_updates st @
                    [(gameId, finish_updates rd (max0 (time tw)) (max0 (time tb)))],
                  gameCollection := (gameCollection st)(gameId \<mapsto>
                    fold apply_upd (finish_updates rd (max0 (time tw)) (max0 (time tb))) g)\<rparr>)) (Str u)))
       (sockets st) @
     [(Room gameId, UpdateGame (Some (fold apply_upd (finish_updates rd (max0 (time tw)) (max0 (time tb))) g)))]"
  by (simp add: finalized_def Let_def emit_def broadcast_gamesList_def remove_from_lobby_def
      stop_timesync_fields halt_fields)

lemma finalized_messages:
  "gameOver_messages (news st (finalized gameId p1 p2 rd g tw tb st)) = [(Room gameId, GameOver rd)]"
  by (simp add: news_def finalized_emitted)
     (simp add: gameOver_messages_def gameOver_messages_broadcast[unfolded gameOver_messages_def])

lemma finalized_fields:
  "map_option time (timers (finalized gameId p1 p2 rd g tw tb st) k) = map_option time (timers st k)"
  "map_option finished (gameCollection (finalized gameId p1 p2 rd g tw tb st) gameId) = Some True"
  "map_option result_description (gameCollection (finalized gameId p1 p2 rd g tw tb st) gameId) = Some (result rd)"
  "map_option result_winner (gameCollection (finalized gameId p1 p2 rd g tw tb st) gameId) = Some (winner rd)"
  "unhandled (finalized gameId p1 p2 rd g tw tb st) = unhandled st"
  "timesync (finalized gameId p1 p2 rd g tw tb st) gameId = None"
  by (simp_all add: finalized_def Let_def emit_def broadcast_gamesList_def remove_from_lobby_def
      stop_timesync_fields halt_fields finish_updates_def)
     (simp_all add: stop_timesync_def halt_def pause_def clearInterval_def split: option.splits)

lemma finalized_handles:
  "fst ` set (intervals (finalized gameId p1 p2 rd g tw tb st)) \<subseteq>
   fst ` set (intervals (halt p2 gameId (halt p1 gameId st)))"
proof -
  have "intervals (finalized gameId p1 p2 rd g tw tb st) =
        intervals (stop_timesync gameId (halt p2 gameId (halt p1 gameId (emit (Room gameId) (GameOver rd) st))))"
    by (simp add: finalized_def Let_def emit_def broadcast_gamesList_def remove_from_lobby_def)
  moreover have "intervals (halt p2 gameId (halt p1 gameId (emit (Room gameId) (GameOver rd) st))) =
        intervals (halt p2 gameId (halt p1 gameId st))"
    by (simp add: halt_def pause_def emit_def split: option.splits)
  ultimately show ?thesis using stop_timesync_handles by metis
qed


lemma tick_alive:
  assumes "timers st (key opp gameId) = Some tm" and "time tm = Some t" and "0 < t"
  shows "tick gameId u opp st =
           (None, st\<lparr>timers := (timers st)(key opp gameId \<mapsto> tm\<lparr>time := Some (t - 1)\<rparr>)\<rparr>)"
  using assms by (simp add: tick_def decrement_def expired_def Let_def max_def)

lemma tick_expired:
  assumes "db_up st" and "gameCollection st gameId = Some g" and "\<not> finished g"
    and "timers st (key (username (white g)) gameId) = Some tw"
    and "timers st (key (username (black g)) gameId) = Some tb"
    and "timers st (key u gameId) = Some tu"
    and "timers st (key opp gameId) = Some tm" and "time tm = Some t" and "t \<le> 0"
  shows "\<exists>tw' tb'. tick gameId u opp st =
           (None, finalized gameId u opp (ontime u) g tw' tb'
                    (st\<lparr>timers := (timers st)(key opp gameId \<mapsto> tm\<lparr>time := Some (- 1)\<rparr>)\<rparr>))"
proof -
  let ?st1 = "st\<lparr>timers := (timers st)(key opp gameId \<mapsto> tm\<lparr>time := Some (- 1)\<rparr>)\<rparr>"
  have ex: "\<And>k x. timers st k = Some x \<Longrightarrow> \<exists>y. timers ?st1 k = Some y" by simp
  from ex[OF assms(4)] obtain tw' where tw': "timers ?st1 (key (username (white g)) gameId) = Some tw'" by blast
  from ex[OF assms(5)] obtain tb' where tb': "timers ?st1 (key (username (black g)) gameId) = Some tb'" by blast
  from ex[OF assms(6)] obtain tu' where tu': "timers ?st1 (key u gameId) = Some tu'" by blast
  from ex[OF assms(7)] obtain tm' where tm': "timers ?st1 (key opp gameId) = Some tm'" by blast
  have go: "gameOver gameId u opp (ontime u) ?st1 = (None, finalized gameId u opp (ontime u) g tw' tb' ?st1)"
    by (rule gameOver_normal[OF _ _ assms(3) tw' tb' tu' tm']) (simp_all add: assms)
  have m: "max (- 1) (t - 1) = - 1" using assms(9) by simp
  have "tick gameId u opp st = gameOver gameId u opp (ontime u) ?st1"
    using assms(7,8) by (simp add: tick_def decrement_def expired_def Let_def m)
  then show ?thesis using go by auto
qed

subsection \<open>A join that takes no seat\<close>




text \<open>
  The acknowledgment loop of joinGame with both seats taken and white's last
  acknowledgment stale: the game ends by abandonment in black's favour, one gameOver
  message goes to the game's room, both time-sync loops are cleared, and the second
  call of gameOver in the same callback finds the game finished and changes nothing.
\<close>

lemma stop_timesync_clears:
  "timesync st gameId = Some s \<Longrightarrow>
   mainLoop s \<notin> fst ` set (intervals (stop_timesync gameId st)) \<and>
   ackLoop s \<notin> fst ` set (intervals (stop_timesync gameId st))"
  by (auto simp: stop_timesync_def clearInterval_def)

lemma finalized_intervals:
  "intervals (finalized gameId p1 p2 rd g tw tb st) =
   intervals (stop_timesync gameId (halt p2 gameId (halt p1 gameId (emit (Room gameId) (GameOver rd) st))))"
  by (simp add: finalized_def Let_def emit_def broadcast_gamesList_def remove_from_lobby_def)

lemma finalized_again:
  assumes "db_up st"
    and "timers st (key (username (white g)) gameId) = Some tw'"
    and "timers st (key (username (black g)) gameId) = Some tb'"
  shows "gameOver gameId q1 q2 rd' (finalized gameId p1 p2 rd g tw tb st) =
           (None, finalized gameId p1 p2 rd g tw tb st)"
proof -
  let ?f = "finalized gameId p1 p2 rd g tw tb st"
  let ?g = "fold apply_upd (finish_updates rd (max0 (time tw)) (max0 (time tb))) g"
  have c: "gameCollection ?f gameId = Some ?g"
    by (simp add: finalized_def Let_def emit_def broadcast_gamesList_def remove_from_lobby_def)
  have d: "db_up ?f = db_up st"
    by (simp add: finalized_def Let_def emit_def broadcast_gamesList_def remove_from_lobby_def
        stop_timesync_fields halt_fields)
  have u: "username (white ?g) = username (white g)" "username (black ?g) = username (black g)"
    "finished ?g"
    by (simp_all add: finish_updates_def)
  from finalized_fields(1)[of gameId p1 p2 rd g tw tb st "key (username (white g)) gameId"] assms(2)
  obtain x where x: "timers ?f (key (username (white g)) gameId) = Some x"
    by (cases "timers ?f (key (username (white g)) gameId)") simp_all
  from finalized_fields(1)[of gameId p1 p2 rd g tw tb st "key (username (black g)) gameId"] assms(3)
  obtain y where y: "timers ?f (key (username (black g)) gameId) = Some y"
    by (cases "timers ?f (key (username (black g)) gameId)") simp_all
  show ?thesis
    by (simp add: gameOver_def getGame_def c d u x y assms(1) split: option.splits)
qed

lemma seated_abandonment:
  assumes "map_of (intervals st) h = Some (GameAck gameId w b)"
    and "db_up st" and "gameCollection st gameId = Some g" and "\<not> finished g"
    and "username (white g) = w" and "username (black g) = b"
    and "timers st (key w gameId) = Some tw" and "timers st (key b gameId) = Some tb"
    and "timesync st gameId = Some s"
    and "lastTimeSync s (js_str w) = Some lastW" and "lastTimeSync s (js_str b) = Some lastB"
    and "stale now lastW"
  shows "gameOver_messages (news st (fire h now st)) = [(Room gameId, GameOver (abandonment b))] \<and>
         map_option finished (gameCollection (fire h now st) gameId) = Some True \<and>
         map_option result_description (gameCollection (fire h now st) gameId) = Some (Str ''abandonment'') \<and>
         map_option result_winner (gameCollection (fire h now st) gameId) = Some b \<and>
         timesync (fire h now st) gameId = None \<and>
         mainLoop s \<notin> fst ` set (intervals (fire h now st)) \<and>
         ackLoop s \<notin> fst ` set (intervals (fire h now st)) \<and>
         unhandled (fire h now st) = unhandled st"
proof -
  let ?f = "finalized gameId w b (abandonment b) g tw tb st"
  have tw': "timers st (key (username (white g)) gameId) = Some tw" using assms(5,7) by simp
  have tb': "timers st (key (username (black g)) gameId) = Some tb" using assms(6,8) by simp
  have g1: "gameOver gameId w b (abandonment b) st = (None, ?f)"
    by (rule gameOver_normal[OF assms(2,3,4) tw' tb' assms(7,8)])
  have g2: "gameOver gameId w b (abandonment w) ?f = (None, ?f)"
    by (rule finalized_again[OF assms(2) tw' tb'])
  have ga: "game_ack gameId w b now st = (None, ?f)"
    by (simp add: game_ack_def assms(9,10,11,12) g1 g2)
  have f: "fire h now st = ?f"
    using assms(1) ga by (simp add: fire_def rejected_def)
  have ts: "timesync (halt b gameId (halt w gameId (emit (Room gameId) (GameOver (abandonment b)) st))) gameId = Some s"
    by (simp add: halt_fields emit_def assms(9))
  show ?thesis
    unfolding f
    using stop_timesync_clears[OF ts]
    by (simp add: finalized_messages finalized_fields finalized_intervals abandonment_def)
qed

subsection \<open>One account of every handler body, and the catch blocks\<close>

lemma body_fair:
  "console (snd (body_of ch ev st)) = console st \<and>
   unhandled (snd (body_of ch ev st)) = unhandled st \<and>
   (\<exists>es. emitted (snd (body_of ch ev st)) = emitted st @ es)"
  using keeps_body_of[OF keeps_refl, of st ch ev] by (simp add: keeps_def)

lemma handle_body:
  "handle ch ev st =
     (case body_of ch ev st of
        (None, st') \<Rightarrow> st'
      | (Some e, st') \<Rightarrow> st'\<lparr>emitted := emitted st' @ error_reply ev, console := console st' @ [e]\<rparr>)"
  by (cases ev)
     (simp_all add: on_username_def on_disconnect_def on_getGames_def on_newGame_def on_joinGame_def
        on_move_def on_resign_def on_syncAck_def on_moveAck_def on_updatedShapes_def
        logged_def answered_def emit_def split: prod.splits option.splits)

text \<open>A catch block and a rejected promise leave the game collection as it is.\<close>

lemma handle_collection: "gameCollection (handle ch ev st) = gameCollection (snd (body_of ch ev st))"
  by (simp add: handle_body split: prod.splits option.splits)

lemma fire_collection:
  "gameCollection (fire h now st) =
     (case map_of (intervals st) h of
        None \<Rightarrow> gameCollection st
      | Some cb \<Rightarrow> gameCollection (snd (run_callback cb now st)))"
  by (simp add: fire_def rejected_def split: option.splits prod.splits)

lemma started_stays_handle:
  "map_option started (gameCollection st gameId) = Some True \<Longrightarrow>
   map_option started (gameCollection (handle ch ev st) gameId) = Some True"
  using keeps_body_of[OF keeps_refl, of st ch ev] unfolding handle_collection keeps_def by blast

lemma started_stays_fire:
  assumes "map_option started (gameCollection st gameId) = Some True"
  shows "map_option started (gameCollection (fire h now st) gameId) = Some True"
proof (cases "map_of (intervals st) h")
  case None
  then show ?thesis using assms by (simp add: fire_def)
next
  case (Some cb)
  from keeps_run_callback[OF keeps_refl, where cb=cb and now=now and st=st] assms
  have "map_option started (gameCollection (snd (run_callback cb now st)) gameId) = Some True"
    unfolding keeps_def by blast
  then show ?thesis using Some by (simp add: fire_collection)
qed

text \<open>A handler whose body raises nothing leaves what the body leaves, and prints nothing.\<close>

lemma handle_clean:
  "fst (body_of ch ev st) = None \<Longrightarrow> handle ch ev st = snd (body_of ch ev st)"
  by (cases "body_of ch ev st") (simp add: handle_body)

lemma clean_console:
  "console (handle ch ev st) = console st \<Longrightarrow> fst (body_of ch ev st) = None"
proof -
  assume a: "console (handle ch ev st) = console st"
  obtain r st' where b: "body_of ch ev st = (r, st')" by (cases "body_of ch ev st")
  from body_fair[of ch ev st] b have c: "console st' = console st" by simp
  show ?thesis using a b c by (cases r) (simp_all add: handle_body)
qed


subsection \<open>The example run, stage by stage\<close>

lemmas game_defs = game0_def game1_def game2_def game3_def

lemma lobby_eq: "lobby = lobby_memory"
  unfolding lobby_def lobby_memory_def
  by (simp add: model_defs example_defs Let_def)

lemma opened_eq: "opened = opened_memory"
  unfolding opened_def lobby_eq lobby_memory_def opened_memory_def
  by (simp add: model_defs example_defs game_defs Let_def)

lemma seated_eq: "seated = seated_memory"
  unfolding seated_def opened_eq opened_memory_def seated_memory_def
  by (simp add: model_defs example_defs game_defs Let_def)

lemma first_move_eq: "first_move = first_move_memory"
  unfolding first_move_def seated_eq first_move_memory_def seated_memory_def opened_memory_def
  by (simp add: model_defs example_defs game_defs Let_def)

lemma reply_eq: "reply = reply_memory"
  unfolding reply_def first_move_eq reply_memory_def first_move_memory_def seated_memory_def
    opened_memory_def
  by (simp add: model_defs example_defs game_defs Let_def)

lemmas run_defs = model_defs example_defs game_defs Let_def

lemma seated_facts:
  "db_up seated" "gameCollection seated gid0 = Some game1"
  "timers seated (key alice gid0) = Some \<lparr>loop = None, time = Some 300\<rparr>"
  "timers seated (key bob gid0) = Some \<lparr>loop = None, time = Some 300\<rparr>"
  "intervals seated = [(2, GameSync gid0 alice bob), (3, GameAck gid0 alice bob)]"
  "next_handle seated = 4"
  unfolding seated_eq seated_memory_def
  by (simp_all add: key_def example_defs)

lemma first_move_facts:
  "db_up first_move" "gameCollection first_move gid0 = Some game2"
  "timers first_move (key alice gid0) = Some \<lparr>loop = None, time = Some 300\<rparr>"
  "timers first_move (key bob gid0) = Some \<lparr>loop = None, time = Some 300\<rparr>"
  "intervals first_move = [(2, GameSync gid0 alice bob), (3, GameAck gid0 alice bob)]"
  "next_handle first_move = 4"
  "started_writes first_move = []"
  unfolding first_move_eq first_move_memory_def seated_memory_def
  by (simp_all add: key_def example_defs started_writes_def)

lemma reply_facts:
  "db_up reply" "gameCollection reply gid0 = Some game3"
  "timers reply (key alice gid0) = Some \<lparr>loop = Some 4, time = Some 300\<rparr>"
  "timers reply (key bob gid0) = Some \<lparr>loop = None, time = Some 300\<rparr>"
  "intervals reply = [(2, GameSync gid0 alice bob), (3, GameAck gid0 alice bob), (4, Tick gid0 bob alice)]"
  "next_handle reply = 5"
  "unhandled reply = []"
  unfolding reply_eq reply_memory_def first_move_memory_def seated_memory_def
  by (simp_all add: key_def example_defs)

lemma game_facts:
  "\<not> finished game1" "\<not> finished game2" "\<not> finished game3"
  "pgn game1 = []" "pgn game2 = ''1. e4''" "pgn game3 = ''1. e4 e5''"
  "username (white game1) = alice" "username (black game1) = bob"
  "username (white game2) = alice" "username (black game2) = bob"
  "username (white game3) = alice" "username (black game3) = bob"
  "\<not> started game1" "\<not> started game2" "started game3"
  by (simp_all add: game_defs)



lemma sends_fields:
  "m_username (sends u mv) = u" "m_gameId (sends u mv) = gid0" "m_move (sends u mv) = mv"
  by (simp_all add: sends_def)




lemma resigned_facts:
  "db_up resigned"
  "map_option finished (gameCollection resigned gid0) = Some True"
  "map_option result_description (gameCollection resigned gid0) = Some (Str ''resignation'')"
  "map_option result_winner (gameCollection resigned gid0) = Some alice"
  "intervals resigned = []"
  unfolding resigned_def reply_eq reply_memory_def first_move_memory_def seated_memory_def
    opened_memory_def
  by (simp_all add: run_defs)

lemma ticks_alive:
  assumes "map_of (intervals st) h = Some (Tick gameId u opp)"
    and "timers st (key opp gameId) = Some tm" and "time tm = Some t"
  shows "int n \<le> t \<Longrightarrow>
         ((fire h now) ^^ n) st =
           st\<lparr>timers := (timers st)(key opp gameId \<mapsto> tm\<lparr>time := Some (t - int n)\<rparr>)\<rparr>"
proof (induction n)
  case 0
  have "tm\<lparr>time := Some t\<rparr> = tm" using assms(3) by simp
  moreover have "(timers st)(key opp gameId \<mapsto> tm) = timers st"
    using assms(2) by (simp add: fun_upd_idem)
  ultimately show ?case by simp
next
  case (Suc n)
  let ?st = "st\<lparr>timers := (timers st)(key opp gameId \<mapsto> tm\<lparr>time := Some (t - int n)\<rparr>)\<rparr>"
  from Suc.prems have le: "int n \<le> t" and pos: "0 < t - int n" by simp_all
  have ih: "((fire h now) ^^ n) st = ?st" by (rule Suc.IH[OF le])
  have i: "map_of (intervals ?st) h = Some (Tick gameId u opp)" using assms(1) by simp
  have tk: "tick gameId u opp ?st =
      (None, ?st\<lparr>timers := (timers ?st)(key opp gameId \<mapsto>
          (tm\<lparr>time := Some (t - int n)\<rparr>)\<lparr>time := Some (t - int n - 1)\<rparr>)\<rparr>)"
    by (rule tick_alive[OF _ _ pos]) simp_all
  have "fire h now ?st = st\<lparr>timers := (timers st)(key opp gameId \<mapsto> tm\<lparr>time := Some (t - int (Suc n))\<rparr>)\<rparr>"
    using i tk by (simp add: fire_def rejected_def algebra_simps)
  then show ?case unfolding funpow.simps o_apply ih .
qed

lemma flagfall_eq:
  "flagfall = reply\<lparr>timers := (timers reply)(key alice gid0 \<mapsto> \<lparr>loop = Some 4, time = Some 0\<rparr>)\<rparr>"
proof -
  have i: "map_of (intervals reply) 4 = Some (Tick gid0 bob alice)"
    by (simp add: reply_facts)
  have "int 300 \<le> (300::int)" by simp
  from ticks_alive[OF i reply_facts(3) _ this, of 3000] show ?thesis
    by (simp add: flagfall_def)
qed

lemma renamed_eq:
  "renamed = boot\<lparr>users := [''sockA'' \<mapsto> bob],
                   sockets := [(''alice'', ''sockA''), (''bob'', ''sockA'')]\<rparr>"
  unfolding renamed_def by (simp add: run_defs)

lemma numbered_eq:
  "numbered = boot\<lparr>users := [''sockN'' \<mapsto> Num 7], sockets := [(''7'', ''sockN'')]\<rparr>"
  unfolding numbered_def by (simp add: run_defs decimal.simps)

lemma run_consoles:
  "console seated = []" "console first_move = []" "console reply = []"
  unfolding seated_eq first_move_eq reply_eq
  by (simp_all add: seated_memory_def first_move_memory_def reply_memory_def)

lemma lobby_facts: "db_up lobby" "gameCollection lobby gid0 = None"
  unfolding lobby_eq lobby_memory_def by simp_all


subsection \<open>C1: a finished game stays as it is\<close>

lemma gameOver_finished:
  "gameCollection st gameId = Some g \<Longrightarrow> finished g \<Longrightarrow>
   snd (gameOver gameId p1 p2 rd st) = st"
  by (simp add: gameOver_def getGame_def split: option.splits)

lemma move_body_finished:
  "db_up st \<Longrightarrow> gameCollection st (m_gameId md) = Some g \<Longrightarrow> finished g \<Longrightarrow>
   move_body ch md st = (None, st)"
  by (simp add: move_body_def getGame_def)

text \<open>
  C1. Once the stored document of a game has its finished flag set, a call of gameOver
  for that game, with any players and any result, leaves the whole memory as it was: no
  message is emitted, the document (position, history, result) and every clock entry,
  interval and lobby list are unchanged. A move event for that game is rejected the same
  way: the handler returns the memory unchanged.
\<close>

theorem finished_is_final:
  assumes "db_up st" and "gameCollection st (m_gameId md) = Some g" and "finished g"
  shows "snd (gameOver (m_gameId md) player1 player2 rd st) = st \<and> on_move ch sid md st = st"
  using assms by (simp add: gameOver_finished move_body_finished on_move_def logged_def)

text \<open>The theorem at the memory left by bob's resignation.\<close>

theorem finished_is_final_witness:
  "db_up resigned \<and>
   map_option finished (gameCollection resigned gid0) = Some True \<and>
   snd (gameOver gid0 bob alice (ontime bob) resigned) = resigned \<and>
   on_move kings_pawn ''sockA'' (sends alice ''Nf3'') resigned = resigned"
proof -
  from resigned_facts(2) obtain g where g: "gameCollection resigned gid0 = Some g" and f: "finished g"
    by (cases "gameCollection resigned gid0") auto
  have g': "gameCollection resigned (m_gameId (sends alice ''Nf3'')) = Some g"
    by (simp add: sends_fields g)
  from finished_is_final[OF resigned_facts(1) g' f, of bob alice "ontime bob" kings_pawn "''sockA''"]
  show ?thesis by (simp add: sends_fields resigned_facts)
qed

subsection \<open>C2: a second decrement loop on a running clock\<close>

text \<open>
  C2. The claim says that at most one decrement loop is active for a clock and that
  starting a running clock creates no second loop. The code does not hold it: the move
  handler replaces the opponent's timer entry with a new interval without clearing the
  one the entry held. After 1. e4 e5 one loop counts down alice's clock; when bob's move
  event arrives a second time (chess.js rejects the move, the handler goes on), two loops
  count down the same clock, and one second later, when both have fired, alice's reading
  has dropped by two.
\<close>

theorem second_loop_on_running_clock:
  "map fst (decrement_loops reply (key alice gid0)) = [4] \<and>
   map fst (decrement_loops repeated (key alice gid0)) = [4, 5] \<and>
   map_option time (timers repeated (key alice gid0)) = Some (Some 300) \<and>
   map_option time (timers (fire 5 3000 (fire 4 3000 repeated)) (key alice gid0)) = Some (Some 298)"
  unfolding repeated_def reply_eq reply_memory_def first_move_memory_def seated_memory_def opened_memory_def
  by (simp add: run_defs decrement_loops_def)

subsection \<open>C3: when a move starts the opponent's clock\<close>




subsection \<open>C4: one tick of a decrement loop\<close>

text \<open>
  C4. A decrement loop that fires on a numeric clock of an unfinished game sets the reading
  \<open>t\<close> to \<open>max (-1) (t - 1)\<close>: one less, never below -1. While the old reading
  is positive (so 0 is still a reading the clock shows) the tick emits nothing and leaves
  every interval running. When the new reading is -1 the same tick calls gameOver: exactly
  one gameOver message is emitted in that step, with result \<open>ontime\<close> and the
  mover who started the loop as winner, the game is stored as finished with that result,
  and the loop, when it is the one registered for the clock, is cleared. The callback
  throws nothing.
\<close>

theorem tick_decrements_and_expires:
  assumes "map_of (intervals st) h = Some (Tick gameId u opp)"
    and "db_up st" and "gameCollection st gameId = Some g" and "\<not> finished g"
    and "timers st (key (username (white g)) gameId) = Some tw"
    and "timers st (key (username (black g)) gameId) = Some tb"
    and "timers st (key u gameId) = Some tu"
    and "timers st (key opp gameId) = Some tm" and "time tm = Some t"
  shows "map_option time (timers (fire h now st) (key opp gameId)) = Some (Some (max (- 1) (t - 1))) \<and>
         unhandled (fire h now st) = unhandled st \<and>
         (if 0 < t
          then news st (fire h now st) = [] \<and> intervals (fire h now st) = intervals st
          else gameOver_messages (news st (fire h now st)) = [(Room gameId, GameOver (ontime u))] \<and>
               map_option finished (gameCollection (fire h now st) gameId) = Some True \<and>
               map_option result_description (gameCollection (fire h now st) gameId) = Some (Str ''ontime'') \<and>
               map_option result_winner (gameCollection (fire h now st) gameId) = Some u \<and>
               (loop tm = Some h \<and> truthy opp \<longrightarrow> h \<notin> fst ` set (intervals (fire h now st))))"
proof (cases "0 < t")
  case True
  have "fire h now st = st\<lparr>timers := (timers st)(key opp gameId \<mapsto> tm\<lparr>time := Some (t - 1)\<rparr>)\<rparr>"
    using assms(1) tick_alive[OF assms(8,9) True] by (simp add: fire_def rejected_def)
  then show ?thesis using True by (simp add: news_def)
next
  case False
  then have le: "t \<le> 0" by simp
  let ?st1 = "st\<lparr>timers := (timers st)(key opp gameId \<mapsto> tm\<lparr>time := Some (- 1)\<rparr>)\<rparr>"
  from tick_expired[OF assms(2-9) le] obtain tw' tb' where
    tk: "tick gameId u opp st = (None, finalized gameId u opp (ontime u) g tw' tb' ?st1)" by blast
  have f: "fire h now st = finalized gameId u opp (ontime u) g tw' tb' ?st1"
    using assms(1) tk by (simp add: fire_def rejected_def)
  have n: "news st (fire h now st) = news ?st1 (finalized gameId u opp (ontime u) g tw' tb' ?st1)"
    by (simp add: f news_def)
  have cl: "loop tm = Some h \<and> truthy opp \<longrightarrow> h \<notin> fst ` set (intervals (fire h now st))"
  proof
    assume a: "loop tm = Some h \<and> truthy opp"
    have "timers ?st1 (key opp gameId) = Some (tm\<lparr>time := Some (- 1)\<rparr>)" by simp
    from halt_halt_clears[OF this, of h u] a
    have "h \<notin> fst ` set (intervals (halt opp gameId (halt u gameId ?st1)))" by simp
    then show "h \<notin> fst ` set (intervals (fire h now st))"
      using finalized_handles[of gameId u opp "ontime u" g tw' tb' ?st1] f by auto
  qed
  have m: "max (- 1) (t - 1) = - 1" using le by simp
  have c1: "map_option time (timers (fire h now st) (key opp gameId)) = Some (Some (max (- 1) (t - 1)))"
    unfolding f m finalized_fields(1) by simp
  have c2: "unhandled (fire h now st) = unhandled st"
    unfolding f finalized_fields(5) by simp
  have c3: "gameOver_messages (news st (fire h now st)) = [(Room gameId, GameOver (ontime u))]"
    unfolding n by (rule finalized_messages)
  have c4: "map_option finished (gameCollection (fire h now st) gameId) = Some True"
    unfolding f by (rule finalized_fields(2))
  have c5: "map_option result_description (gameCollection (fire h now st) gameId) = Some (Str ''ontime'')"
    unfolding f finalized_fields(3) by (simp add: ontime_def)
  have c6: "map_option result_winner (gameCollection (fire h now st) gameId) = Some u"
    unfolding f finalized_fields(4) by (simp add: ontime_def)
  show ?thesis
    unfolding if_not_P[OF False] using c1 c2 c3 c4 c5 c6 cl by blast
qed

text \<open>The theorem at the tick that lets alice's flag fall, 300 ticks after bob's reply.\<close>

theorem tick_decrements_and_expires_witness:
  "map_of (intervals flagfall) 4 = Some (Tick gid0 bob alice) \<and> db_up flagfall \<and>
   gameCollection flagfall gid0 = Some game3 \<and> \<not> finished game3 \<and>
   timers flagfall (key alice gid0) = Some \<lparr>loop = Some 4, time = Some 0\<rparr> \<and>
   timers flagfall (key bob gid0) = Some \<lparr>loop = None, time = Some 300\<rparr> \<and>
   map_option time (timers (fire 4 3001 flagfall) (key alice gid0)) = Some (Some (- 1)) \<and>
   unhandled (fire 4 3001 flagfall) = unhandled flagfall \<and>
   gameOver_messages (news flagfall (fire 4 3001 flagfall)) = [(Room gid0, GameOver (ontime bob))] \<and>
   map_option finished (gameCollection (fire 4 3001 flagfall) gid0) = Some True \<and>
   map_option result_winner (gameCollection (fire 4 3001 flagfall) gid0) = Some bob \<and>
   4 \<notin> fst ` set (intervals (fire 4 3001 flagfall))"
proof -
  have ab: "key bob gid0 \<noteq> key alice gid0" by (simp add: key_def alice_def bob_def)
  have i: "map_of (intervals flagfall) 4 = Some (Tick gid0 bob alice)"
    by (simp add: flagfall_eq reply_facts)
  have d: "db_up flagfall" by (simp add: flagfall_eq reply_facts)
  have g: "gameCollection flagfall gid0 = Some game3" by (simp add: flagfall_eq reply_facts)
  have ta: "timers flagfall (key alice gid0) = Some \<lparr>loop = Some 4, time = Some 0\<rparr>"
    by (simp add: flagfall_eq)
  have tb: "timers flagfall (key bob gid0) = Some \<lparr>loop = None, time = Some 300\<rparr>"
    using ab by (simp add: flagfall_eq reply_facts)
  have tw: "timers flagfall (key (username (white game3)) gid0) = Some \<lparr>loop = Some 4, time = Some 0\<rparr>"
    by (simp add: game_facts ta)
  have tbl: "timers flagfall (key (username (black game3)) gid0) = Some \<lparr>loop = None, time = Some 300\<rparr>"
    by (simp add: game_facts tb)
  have t0: "time \<lparr>loop = Some 4, time = Some (0::int)\<rparr> = Some 0" by simp
  note th = tick_decrements_and_expires[OF i d g game_facts(3) tw tbl tb ta t0, of 3001]
  have tr: "truthy alice" by (simp add: alice_def)
  from th show ?thesis
    by (simp add: i d g ta tb game_facts tr)
qed

subsection \<open>C5: the host's acknowledgment loop\<close>

text \<open>
  C5. The claim says that a stale acknowledgment ends the game with result abandonment,
  with no winner when no second seat is taken, and tears down the time-sync loops. The
  code does not hold it for the open game: alice creates a game and stays silent; when
  the acknowledgment loop fires 180001 ms after the host's last acknowledgment, the lobby entry
  is removed and gameOver is called with no players, where it reads the clock entry of the
  empty seat and throws. No gameOver message is emitted, the game is not stored as
  finished, both time-sync intervals stay active and the exception reaches the process.
\<close>

theorem host_abandonment_throws:
  "stale 181001 1000 \<and>
   unhandled (fire 1 181001 opened) = [TypeError] \<and>
   gameOver_messages (emitted (fire 1 181001 opened)) = [] \<and>
   map_option finished (gameCollection (fire 1 181001 opened) gid0) = Some False \<and>
   map fst (intervals (fire 1 181001 opened)) = [0, 1] \<and>
   map_option ackLoop (timesync (fire 1 181001 opened) gid0) = Some 1 \<and>
   joinableGames (fire 1 181001 opened) = []"
  unfolding opened_eq opened_memory_def
  by (simp add: run_defs gameOver_messages_def)

subsection \<open>C6: joining a game that cannot be joined\<close>



subsection \<open>C7: a lobby listing can show a host their own open game\<close>

text \<open>
  C7. The claim says that no lobby listing sent to a connected participant names a
  joinable game that participant hosts. Every broadcast walks the names of the sockets
  object: the listing computed for the name \<open>u\<close> leaves out the entries whose host is
  \<open>u\<close>, compared with \<open>!==\<close>, and is sent to the socket id stored under \<open>u\<close>. On two
  inputs a host is sent their own open game as joinable.

  One socket announces alice and then bob. The username handler binds the new name and
  leaves the entry of the old name in the sockets object (the disconnect handler does
  delete the entry of a socket's name). When bob creates a game, the listing computed for
  alice names bob's game and goes to the same socket, whose participant is bob.

  A socket announces the number 7. Its game is hosted by the number 7, the broadcast
  compares that host with the object key "7", which never equals it, and the host's own
  game stays in the listing sent to the host.
\<close>

theorem host_is_shown_own_game:
  "user_of renamed ''sockA'' = bob \<and>
   (Room ''sockA'', own_listing bob)
     \<in> set (news renamed (handle kings_pawn (NewGame ''sockA'' (Some ''5+0'') True gid0 1000) renamed)) \<and>
   shows_own_game (handle kings_pawn (NewGame ''sockA'' (Some ''5+0'') True gid0 1000) renamed)
     (Room ''sockA'', own_listing bob) \<and>
   user_of numbered ''sockN'' = Num 7 \<and>
   (Room ''sockN'', own_listing (Num 7))
     \<in> set (news numbered (handle kings_pawn (NewGame ''sockN'' (Some ''5+0'') True gid0 1000) numbered)) \<and>
   shows_own_game (handle kings_pawn (NewGame ''sockN'' (Some ''5+0'') True gid0 1000) numbered)
     (Room ''sockN'', own_listing (Num 7))"
  unfolding renamed_eq numbered_eq
  by (simp add: run_defs news_def own_listing_def shows_own_game_def decimal.simps)


subsection \<open>C8: faults are caught and logged; two handlers answer the socket\<close>

text \<open>
  C8, amended. Whatever exception leaves the try block of an inbound event's handler is
  caught there: nothing reaches the process (the unhandled list is unchanged) and the
  error is printed on the console once. Only the handlers of newGame and joinGame send an
  error message back on the socket of the event; the catch blocks of the other handlers
  (username, disconnect, getGames, move, resign, syncAck, moveAck, updatedShapes) print the
  error and send nothing. Without an exception the handler leaves what its body leaves.
\<close>

theorem faults_caught_and_logged:
  "unhandled (handle ch ev st) = unhandled st \<and>
   (case body_of ch ev st of
      (None, st') \<Rightarrow> handle ch ev st = st'
    | (Some e, st') \<Rightarrow>
        handle ch ev st = st'\<lparr>emitted := emitted st' @ error_reply ev, console := console st @ [e]\<rparr>)"
proof -
  obtain r st' where b: "body_of ch ev st = (r, st')" by (cases "body_of ch ev st")
  from body_fair[of ch ev st] b have c: "console st' = console st" "unhandled st' = unhandled st"
    by auto
  show ?thesis using b c by (cases r) (simp_all add: handle_body)
qed

text \<open>
  The claim as stated fails for the move handler: with the database down the fault is
  caught and printed, and no message at all is sent, to the sender or anyone else.
\<close>

theorem move_fault_only_logged:
  "body_of kings_pawn (Move ''sockA'' (sends alice ''e4'')) (seated\<lparr>db_up := False\<rparr>) =
     (Some PersistenceError, seated\<lparr>db_up := False\<rparr>) \<and>
   handle kings_pawn (Move ''sockA'' (sends alice ''e4'')) (seated\<lparr>db_up := False\<rparr>) =
     seated\<lparr>db_up := False, console := [PersistenceError]\<rparr> \<and>
   news (seated\<lparr>db_up := False\<rparr>)
     (handle kings_pawn (Move ''sockA'' (sends alice ''e4'')) (seated\<lparr>db_up := False\<rparr>)) = []"
  unfolding seated_eq seated_memory_def opened_memory_def
  by (simp add: run_defs news_def)
subsection \<open>C9: the started flag\<close>

lemma newGame_document:
  "db_up st \<Longrightarrow> gameCollection st new_id = None \<Longrightarrow>
   gameCollection (on_newGame ch sid (Some tc) heads new_id now st) new_id =
     Some ((fresh_game ch (user_of st sid) (if heads then ''white'' else ''black'') tc)\<lparr>game_id := new_id\<rparr>)"
  by (simp add: on_newGame_def answered_def newGame_body_def createGame_def Let_def enter_game_def
      leave_previous_def join_room_def leave_room_def emit_def host_timesync_def setInterval_def
      list_joinable_def broadcast_gamesList_def split: option.splits)

lemma switch_clocks_started:
  assumes "switch_clocks md g s = (None, gv, s3)" and "gameCollection s (m_gameId md) = Some g0"
    and "started g0 = started g"
  shows "map_option started (gameCollection s3 (m_gameId md)) =
           Some (m_username md \<noteq> username (white g) \<or> started g)"
    and "started_writes s3 =
           started_writes s @
           (if m_username md \<noteq> username (white g) \<or> started g
            then [(m_gameId md, [Set_started True])] else [])"
  using assms
  by (auto simp: switch_clocks_def Let_def stop_timer_def start_timer_def setInterval_def
      clearInterval_def updateGame_def orientation_of_def started_writes_def
      split: sum.splits option.splits prod.splits if_splits)

lemma started_kept:
  "started (fold apply_upd (finish_updates rd a b) d) = started d"
  "\<not> writes_started (finish_updates rd a b)"
  by (simp_all add: finish_updates_def writes_started_def)

lemma move_started:
  assumes "gameCollection st (m_gameId md) = Some g" and "\<not> finished g"
    and "fst (move_body ch md st) = None"
  shows "map_option started (gameCollection (snd (move_body ch md st)) (m_gameId md)) =
           Some (m_username md \<noteq> username (white g) \<or> started g)"
    and "started_writes (snd (move_body ch md st)) =
           started_writes st @
           (if m_username md \<noteq> username (white g) \<or> started g
            then [(m_gameId md, [Set_started True])] else [])"
proof -
  let ?gameId = "m_gameId md"
  let ?c = "m_username md \<noteq> username (white g) \<or> started g"
  have db: "db_up st"
    using assms(3) by (auto simp: move_body_def Let_def getGame_def split: if_splits)
  obtain pos where pl: "play ch (pgn g) (m_move md) = Inr pos"
    using assms by (cases "play ch (pgn g) (m_move md)") (simp_all add: move_body_def Let_def getGame_def db)
  let ?g1 = "fold apply_upd (move_updates pos (m_move md)) g"
  let ?st1 = "st\<lparr>db_updates := db_updates st @ [(?gameId, move_updates pos (m_move md))],
                gameCollection := (gameCollection st)(?gameId \<mapsto> ?g1)\<rparr>"
  let ?st2 = "record_move md ?g1 ?st1"
  have u1: "updateGame ?gameId (move_updates pos (m_move md)) st = Inr (Some ?g1, ?st1)"
    using db assms(1) by (rule updateGame_found)
  obtain r gv s3 where sw: "switch_clocks md ?g1 ?st2 = (r, gv, s3)"
    by (cases "switch_clocks md ?g1 ?st2") auto
  have r: "r = None"
    using assms(3) by (cases r) (simp_all add: move_body_def Let_def getGame_def db assms(1,2) pl u1 sw)
  have g2: "gameCollection ?st2 ?gameId = Some ?g1"
    by (simp add: record_move_fields)
  have w2: "started_writes ?st2 = started_writes st"
    by (simp add: started_writes_def record_move_fields move_updates_def)
  from switch_clocks_started[OF sw[unfolded r] g2 refl]
  have s3: "map_option started (gameCollection s3 ?gameId) = Some ?c"
    and w3: "started_writes s3 = started_writes st @ (if ?c then [(?gameId, [Set_started True])] else [])"
    by (simp_all add: moved_game w2)
  let ?T = "snd (move_body ch md st)"
  have c: "?T = snd (gameOver ?gameId (m_username md) (opponent_of (m_username md) ?g1)
                    (result_of pos (m_username md)) s3) \<or>
           ?T = notify_players ?gameId ?g1 gv s3"
    by (simp add: move_body_def Let_def getGame_def db assms(1,2) pl u1 sw r)
  have "undisturbed started writes_started s3
          (snd (gameOver ?gameId (m_username md) (opponent_of (m_username md) ?g1)
                    (result_of pos (m_username md)) s3))"
    by (rule und_gameOver[OF _ _ und_refl]) (simp_all add: started_kept)
  with c und_notify_players[OF und_refl, of started writes_started s3 ?gameId ?g1 gv]
  have u: "undisturbed started writes_started s3 ?T" by metis
  then have "map_option started (gameCollection ?T ?gameId) = map_option started (gameCollection s3 ?gameId)"
    and "started_writes ?T = started_writes s3"
    unfolding undisturbed_def started_writes_def writes_started_def by simp_all
  with s3 w3 show "map_option started (gameCollection ?T ?gameId) = Some ?c"
    and "started_writes ?T = started_writes st @ (if ?c then [(?gameId, [Set_started True])] else [])"
    by simp_all
qed

text \<open>
  C9, amended. The started flag is false in the document newGame stores, and no inbound
  event and no interval callback turns a stored true flag back to false. A move event on
  a stored, unfinished game that the handler processes without a fault leaves the flag
  true, and writes \<open>{'state.started': true}\<close> to the database, exactly when the sender's
  name is not white's or the game was already marked started; otherwise it leaves the
  flag false and writes nothing. So the write is not single: in a game played in turn it
  happens at the first reply and again at every later move.
\<close>

theorem started_flag_lifecycle:
  "(db_up st \<and> gameCollection st new_id = None \<longrightarrow>
      map_option started
        (gameCollection (handle ch (NewGame sid (Some tc) heads new_id now) st) new_id) = Some False) \<and>
   (map_option started (gameCollection st gameId) = Some True \<longrightarrow>
      map_option started (gameCollection (handle ch ev st) gameId) = Some True \<and>
      map_option started (gameCollection (fire h now st) gameId) = Some True) \<and>
   (gameCollection st (m_gameId md) = Some g \<and> \<not> finished g \<and>
    fst (body_of ch (Move sid md) st) = None \<longrightarrow>
      map_option started (gameCollection (handle ch (Move sid md) st) (m_gameId md)) =
        Some (m_username md \<noteq> username (white g) \<or> started g) \<and>
      started_writes (handle ch (Move sid md) st) =
        started_writes st @
        (if m_username md \<noteq> username (white g) \<or> started g
         then [(m_gameId md, [Set_started True])] else []))"
proof (intro conjI impI)
  assume "db_up st \<and> gameCollection st new_id = None"
  then show "map_option started
        (gameCollection (handle ch (NewGame sid (Some tc) heads new_id now) st) new_id) = Some False"
    by (simp add: newGame_document fresh_game_def)
next
  assume "map_option started (gameCollection st gameId) = Some True"
  then show "map_option started (gameCollection (handle ch ev st) gameId) = Some True"
    and "map_option started (gameCollection (fire h now st) gameId) = Some True"
    by (rule started_stays_handle, rule started_stays_fire)
next
  assume a: "gameCollection st (m_gameId md) = Some g \<and> \<not> finished g \<and>
    fst (body_of ch (Move sid md) st) = None"
  then have h: "handle ch (Move sid md) st = snd (move_body ch md st)"
    using handle_clean[of ch "Move sid md" st] by simp
  from a have f: "fst (move_body ch md st) = None" by simp
  from a move_started[OF _ _ f, of g]
  show "map_option started (gameCollection (handle ch (Move sid md) st) (m_gameId md)) =
        Some (m_username md \<noteq> username (white g) \<or> started g)"
    and "started_writes (handle ch (Move sid md) st) =
        started_writes st @
        (if m_username md \<noteq> username (white g) \<or> started g
         then [(m_gameId md, [Set_started True])] else [])"
    unfolding h by simp_all
qed

text \<open>
  The theorem on the example run: the new game is stored unstarted; alice's 1. e4 writes
  nothing and leaves the flag false; bob's reply writes the flag; bob's resignation and a
  tick of alice's clock leave it true.
\<close>

theorem started_flag_lifecycle_witness:
  "db_up lobby \<and> gameCollection lobby gid0 = None \<and>
   map_option started (gameCollection opened gid0) = Some False \<and>
   gameCollection seated gid0 = Some game1 \<and> \<not> finished game1 \<and>
   fst (body_of kings_pawn (Move ''sockA'' (sends alice ''e4'')) seated) = None \<and>
   map_option started (gameCollection first_move gid0) = Some False \<and>
   started_writes first_move = [] \<and>
   gameCollection first_move gid0 = Some game2 \<and> \<not> finished game2 \<and>
   fst (body_of kings_pawn (Move ''sockB'' (sends bob ''e5'')) first_move) = None \<and>
   map_option started (gameCollection reply gid0) = Some True \<and>
   started_writes reply = [(gid0, [Set_started True])] \<and>
   map_option started (gameCollection resigned gid0) = Some True \<and>
   map_option started (gameCollection (fire 4 3000 reply) gid0) = Some True"
proof -
  have c1: "fst (body_of kings_pawn (Move ''sockA'' (sends alice ''e4'')) seated) = None"
    by (rule clean_console) (simp only: first_move_def[symmetric] run_consoles)
  have c2: "fst (body_of kings_pawn (Move ''sockB'' (sends bob ''e5'')) first_move) = None"
    by (rule clean_console) (simp only: reply_def[symmetric] run_consoles)
  have w0: "started_writes seated = []"
    unfolding seated_eq seated_memory_def opened_memory_def by (simp add: started_writes_def)
  note a = started_flag_lifecycle[where st=lobby and new_id=gid0 and ch=kings_pawn and sid="''sockA''"
      and tc="''5+0''" and heads=True and now=1000 and md="sends alice ''e4''" and gameId=gid0]
  note b = started_flag_lifecycle[where st=seated and ch=kings_pawn and sid="''sockA''"
      and md="sends alice ''e4''" and g=game1 and gameId=gid0 and new_id=gid0]
  note c = started_flag_lifecycle[where st=first_move and ch=kings_pawn and sid="''sockB''"
      and md="sends bob ''e5''" and g=game2 and gameId=gid0 and new_id=gid0]
  note d = started_flag_lifecycle[where st=reply and ch=kings_pawn and gameId=gid0
      and ev="Resign ''sockB''" and h=4 and now=3000 and md="sends alice ''e4''" and new_id=gid0]
  from a have 1: "map_option started (gameCollection opened gid0) = Some False"
    by (simp add: lobby_facts opened_def)
  from b c1 have 2: "map_option started (gameCollection first_move gid0) = Some False"
    "started_writes first_move = []"
    by (simp_all add: seated_facts game_facts sends_fields first_move_def w0 alice_def)
  from c c2 have 3: "map_option started (gameCollection reply gid0) = Some True"
    "started_writes reply = [(gid0, [Set_started True])]"
    by (simp_all add: first_move_facts game_facts sends_fields reply_def alice_def bob_def)
  from d 3(1) have 4: "map_option started (gameCollection resigned gid0) = Some True"
    "map_option started (gameCollection (fire 4 3000 reply) gid0) = Some True"
    by (simp_all add: resigned_def)
  from 1 2 3 4 c1 c2 show ?thesis
    by (simp add: lobby_facts seated_facts first_move_facts game_facts)
qed

text \<open>
  The claim as stated fails: in the game 1. e4 e5 2. Nf3, played in turn, the flag is
  written at bob's reply and written again at alice's second move.
\<close>

theorem started_written_at_every_move:
  "started_writes reply = [(gid0, [Set_started True])] \<and>
   started_writes (handle kings_pawn (Move ''sockA'' (sends alice ''Nf3'')) reply) =
     [(gid0, [Set_started True]), (gid0, [Set_started True])]"
  unfolding reply_eq reply_memory_def first_move_memory_def seated_memory_def opened_memory_def
  by (simp add: run_defs started_writes_def)

subsection \<open>C10: the move handler does not look at the sending connection\<close>

text \<open>
  C10, amended. The effect of a move event is a function of the whole payload and the
  server's memory. It does not depend on the connection the event arrived on, nor on the
  users object that binds connections to names: the same payload on any two connections
  leaves the same memory, emits the same messages and logs the same errors. The handler
  checks neither that the sending connection is bound to the payload's user name, nor that
  the name holds a seat, nor that it is that side's turn: whenever the database is up, the
  game is stored unfinished and chess.js does not throw, the position chess.js returns is
  stored, and the payload is recorded as the game's last move and broadcast to the game's
  room, whatever the sender's connection and name. The payload counts as a whole, not only
  through its user name, game id and move: it is stored and broadcast as it came, with its
  \<open>fen\<close> field.
\<close>

theorem move_effect_ignores_connection:
  "handle ch (Move sid md) st = handle ch (Move sid' md) st \<and>
   handle ch (Move sid md) (st\<lparr>users := us\<rparr>) = (handle ch (Move sid md) st)\<lparr>users := us\<rparr> \<and>
   (db_up st \<and> gameCollection st (m_gameId md) = Some g \<and> \<not> finished g \<and>
    play ch (pgn g) (m_move md) = Inr pos \<longrightarrow>
      map_option placement (gameCollection (handle ch (Move sid md) st) (m_gameId md)) =
        Some (p_fen pos, Some (m_move md), p_pgn pos, p_history pos) \<and>
      lastMoveFromGame (handle ch (Move sid md) st) (m_gameId md) = Some md \<and>
      (Room (m_gameId md), Moved (Some md)) \<in> set (news st (handle ch (Move sid md) st)))"
proof (intro conjI impI)
  show "handle ch (Move sid md) st = handle ch (Move sid' md) st"
    by (simp add: on_move_def)
  show "handle ch (Move sid md) (st\<lparr>users := us\<rparr>) = (handle ch (Move sid md) st)\<lparr>users := us\<rparr>"
    by (simp add: users_on_move[where sid'=sid])
next
  assume "db_up st \<and> gameCollection st (m_gameId md) = Some g \<and> \<not> finished g \<and>
    play ch (pgn g) (m_move md) = Inr pos"
  then have a: "db_up st" "gameCollection st (m_gameId md) = Some g" "\<not> finished g"
    "play ch (pgn g) (m_move md) = Inr pos" by simp_all
  from move_accepted(1)[OF a, of sid]
  show "map_option placement (gameCollection (handle ch (Move sid md) st) (m_gameId md)) =
        Some (p_fen pos, Some (m_move md), p_pgn pos, p_history pos)" by simp
  from move_accepted(2)[OF a, of sid]
  show "lastMoveFromGame (handle ch (Move sid md) st) (m_gameId md) = Some md" by simp
  from move_accepted(3)[OF a, of sid]
  show "(Room (m_gameId md), Moved (Some md)) \<in> set (news st (handle ch (Move sid md) st))"
    by (auto simp: news_def)
qed

text \<open>
  The theorem on the seated game, before any move, for an event that arrives on a socket
  bound to no name: 1. e4 sent under bob's name, who holds the black seat, and the same
  move sent under carol's name, who holds no seat. Both are stored and broadcast.
\<close>

theorem move_effect_ignores_connection_witness:
  "user_of seated ''sockZ'' = Undefined \<and>
   db_up seated \<and> gameCollection seated gid0 = Some game1 \<and> \<not> finished game1 \<and>
   username (white game1) = alice \<and> username (black game1) = bob \<and> moves game1 = [] \<and>
   play kings_pawn (pgn game1) ''e4'' = Inr after_e4 \<and>
   map_option placement
     (gameCollection (handle kings_pawn (Move ''sockZ'' (sends bob ''e4'')) seated) gid0) =
     Some (p_fen after_e4, Some ''e4'', ''1. e4'', [''e4'']) \<and>
   (Room gid0, Moved (Some (sends bob ''e4'')))
     \<in> set (news seated (handle kings_pawn (Move ''sockZ'' (sends bob ''e4'')) seated)) \<and>
   carol \<noteq> alice \<and> carol \<noteq> bob \<and>
   map_option placement
     (gameCollection (handle kings_pawn (Move ''sockZ'' (sends carol ''e4'')) seated) gid0) =
     Some (p_fen after_e4, Some ''e4'', ''1. e4'', [''e4'']) \<and>
   (Room gid0, Moved (Some (sends carol ''e4'')))
     \<in> set (news seated (handle kings_pawn (Move ''sockZ'' (sends carol ''e4'')) seated))"
proof -
  have p: "play kings_pawn [] ''e4'' = Inr after_e4" "play kings_pawn (pgn game1) ''e4'' = Inr after_e4"
    by (simp_all add: game_facts kings_pawn_def kings_pawn_play_def)
  have u: "user_of seated ''sockZ'' = Undefined"
    unfolding seated_eq seated_memory_def by (simp add: user_of_def)
  note a = move_effect_ignores_connection[where ch=kings_pawn and sid="''sockZ''" and st=seated
      and md="sends bob ''e4''" and g=game1 and pos=after_e4]
  note b = move_effect_ignores_connection[where ch=kings_pawn and sid="''sockZ''" and st=seated
      and md="sends carol ''e4''" and g=game1 and pos=after_e4]
  from a b p u show ?thesis
    by (simp add: seated_facts game_facts sends_fields after_e4_def start_position_def
        game1_def carol_def alice_def bob_def)
qed

text \<open>
  The claim as stated fails: two payloads with the same user name, game id and move that
  differ in their \<open>fen\<close> field leave different last moves on record and broadcast
  different messages.
\<close>

theorem fen_changes_effect:
  "m_username relabelled = m_username (sends alice ''e4'') \<and>
   m_gameId relabelled = m_gameId (sends alice ''e4'') \<and>
   m_move relabelled = m_move (sends alice ''e4'') \<and>
   lastMoveFromGame (handle kings_pawn (Move ''sockA'' (sends alice ''e4'')) seated) gid0 =
     Some (sends alice ''e4'') \<and>
   lastMoveFromGame (handle kings_pawn (Move ''sockA'' relabelled) seated) gid0 = Some relabelled \<and>
   (Room gid0, Moved (Some relabelled))
     \<in> set (news seated (handle kings_pawn (Move ''sockA'' relabelled) seated)) \<and>
   (Room gid0, Moved (Some relabelled))
     \<notin> set (news seated (handle kings_pawn (Move ''sockA'' (sends alice ''e4'')) seated)) \<and>
   handle kings_pawn (Move ''sockA'' (sends alice ''e4'')) seated \<noteq>
   handle kings_pawn (Move ''sockA'' relabelled) seated"
proof -
  have p: "play kings_pawn [] ''e4'' = Inr after_e4" "play kings_pawn (pgn game1) ''e4'' = Inr after_e4"
    by (simp_all add: game_facts kings_pawn_def kings_pawn_play_def)
  have f: "m_username relabelled = alice" "m_gameId relabelled = gid0" "m_move relabelled = ''e4''"
    by (simp_all add: relabelled_def sends_def)
  have l1: "lastMoveFromGame (handle kings_pawn (Move ''sockA'' (sends alice ''e4'')) seated) gid0 =
     Some (sends alice ''e4'')"
    using move_accepted(2)[where ch=kings_pawn and md="sends alice ''e4''" and st=seated and g=game1
        and pos=after_e4 and sid="''sockA''"]
    by (simp add: seated_facts game_facts sends_fields p)
  have l2: "lastMoveFromGame (handle kings_pawn (Move ''sockA'' relabelled) seated) gid0 = Some relabelled"
    using move_accepted(2)[where ch=kings_pawn and md=relabelled and st=seated and g=game1
        and pos=after_e4 and sid="''sockA''"]
    by (simp add: seated_facts game_facts f p)
  have n2: "(Room gid0, Moved (Some relabelled))
     \<in> set (news seated (handle kings_pawn (Move ''sockA'' relabelled) seated))"
    using move_accepted(3)[where ch=kings_pawn and md=relabelled and st=seated and g=game1
        and pos=after_e4 and sid="''sockA''"]
    by (auto simp: seated_facts game_facts f p news_def)
  have d: "relabelled \<noteq> sends alice ''e4''"
    by (simp add: relabelled_def sends_def)
  have n1: "(Room gid0, Moved (Some relabelled))
     \<notin> set (news seated (handle kings_pawn (Move ''sockA'' (sends alice ''e4'')) seated))"
    unfolding first_move_def[symmetric]
    unfolding first_move_eq seated_eq
    by (simp add: news_def first_move_memory_def seated_memory_def relabelled_def sends_def
        alice_def gid0_def)
  from l1 l2 d have "handle kings_pawn (Move ''sockA'' (sends alice ''e4'')) seated \<noteq>
   handle kings_pawn (Move ''sockA'' relabelled) seated" by auto
  with l1 l2 n1 n2 f show ?thesis by (simp add: sends_fields)
qed


end
